theory Spec2Isabelle
  imports Main
begin

section \<open>JavaScript strings and the built-ins the pages use\<close>

text \<open>
  A JavaScript string is a sequence of UTF-16 code units, so a string is modelled as a
  list of code-unit values. \<open>js\<close> turns an ASCII literal into that form.
\<close>

type_synonym jsstring = "nat list"

definition js :: "string \<Rightarrow> jsstring" where
  "js s = map of_char s"

text \<open>
  The class \<open>\s\<close> of a regular expression and the characters removed by
  \<open>String.prototype.trim\<close> are the same set: WhiteSpace and LineTerminator of ECMAScript
  (TAB, LF, VT, FF, CR, SP, NBSP, U+1680, U+2000 to U+200A, U+2028, U+2029, U+202F, U+205F,
  U+3000, U+FEFF).
\<close>

definition isWhiteSpace :: "nat \<Rightarrow> bool" where
  "isWhiteSpace c \<longleftrightarrow>
     c = 9 \<or> c = 10 \<or> c = 11 \<or> c = 12 \<or> c = 13 \<or> c = 32 \<or> c = 160 \<or> c = 5760 \<or>
     (8192 \<le> c \<and> c \<le> 8202) \<or> c = 8232 \<or> c = 8233 \<or> c = 8239 \<or> c = 8287 \<or>
     c = 12288 \<or> c = 65279"

text \<open>The class \<open>\d\<close>: the ASCII digits only.\<close>

definition isDigit :: "nat \<Rightarrow> bool" where
  "isDigit c \<longleftrightarrow> 48 \<le> c \<and> c \<le> 57"

text \<open>
  Case-insensitive matching (flag \<open>i\<close>, no flag \<open>u\<close>) compares canonicalised code units.
  Canonicalisation upper-cases a code unit, but never maps a code unit of value 128 or more
  to an ASCII one; every pattern character of the pages is ASCII, so only the ASCII part of
  the mapping can make two code units equal, and that part is modelled.
\<close>

definition canonicalize :: "nat \<Rightarrow> nat" where
  "canonicalize c = (if 97 \<le> c \<and> c \<le> 122 then c - 32 else c)"

text \<open>\<open>String.prototype.trim\<close>.\<close>

definition trim :: "jsstring \<Rightarrow> jsstring" where
  "trim s = rev (dropWhile isWhiteSpace (rev (dropWhile isWhiteSpace s)))"

text \<open>
  A literal pattern matched at the start of the input, ignoring case; the result is the
  input that follows the match.
\<close>

fun match_literal :: "jsstring \<Rightarrow> jsstring \<Rightarrow> jsstring option" where
  "match_literal [] s = Some s"
| "match_literal (p # ps) [] = None"
| "match_literal (p # ps) (c # cs) =
     (if canonicalize c = canonicalize p then match_literal ps cs else None)"

text \<open>
  The numeric value of a string of decimal digits, and \<open>parseInt(s, 10)\<close>: leading white
  space is skipped, one sign is accepted, the longest prefix of digits is read, and the
  result is NaN (here \<open>None\<close>) when that prefix is empty. The pages pass at most three
  digits, far below the sixteen digits where a double stops being exact.
\<close>

definition decimal :: "jsstring \<Rightarrow> int" where
  "decimal ds = foldl (\<lambda>a c. 10 * a + (int c - 48)) 0 ds"

definition parseInt10 :: "jsstring \<Rightarrow> int option" where
  "parseInt10 s =
     (let t = dropWhile isWhiteSpace s;
          neg = (case t of [] \<Rightarrow> False | c # _ \<Rightarrow> c = 45);
          u = (case t of [] \<Rightarrow> [] | c # cs \<Rightarrow> if c = 43 \<or> c = 45 then cs else t);
          ds = takeWhile isDigit u
      in if ds = [] then None else Some (if neg then - decimal ds else decimal ds))"

section \<open>The score marker: \<open>/SCORE:\s*(\d{1,3})/i\<close>\<close>

text \<open>
  \<open>(\d{1,3})\<close> is greedy and ends the pattern: it takes the digits among the next three
  code units, up to the first non-digit, and fails when there is none.
\<close>

definition match_digits :: "jsstring \<Rightarrow> jsstring option" where
  "match_digits s =
     (let ds = takeWhile isDigit (take 3 s) in if ds = [] then None else Some ds)"

text \<open>
  \<open>\s*\<close> followed by the group: the star is greedy, so it first takes one more white-space
  character and tries the rest; when that fails the matcher backtracks and tries the group
  at the current position.
\<close>

fun match_space_digits :: "jsstring \<Rightarrow> jsstring option" where
  "match_space_digits [] = match_digits []"
| "match_space_digits (c # cs) =
     (if isWhiteSpace c
      then (case match_space_digits cs of
              Some ds \<Rightarrow> Some ds
            | None \<Rightarrow> match_digits (c # cs))
      else match_digits (c # cs))"

text \<open>The whole pattern tried at the start of the input; the result is capture group 1.\<close>

definition score_regex_here :: "jsstring \<Rightarrow> jsstring option" where
  "score_regex_here s =
     (case match_literal (js ''SCORE:'') s of
        None \<Rightarrow> None
      | Some r \<Rightarrow> match_space_digits r)"

text \<open>
  \<open>reply.match(re)\<close> without flag \<open>g\<close>: the pattern is tried at index 0, 1, 2, ... and the
  first index where it matches wins; \<open>None\<close> is the \<open>null\<close> of no match.
\<close>

fun score_regex :: "jsstring \<Rightarrow> jsstring option" where
  "score_regex [] = score_regex_here []"
| "score_regex (c # cs) =
     (case score_regex_here (c # cs) of
        Some ds \<Rightarrow> Some ds
      | None \<Rightarrow> score_regex cs)"

text \<open>
  The score computed from a reply, shared by the three pages that show one:
  \<open>Math.max(0, Math.min(100, n))\<close> of the parsed group, \<open>null\<close> when there is no match or
  the group parses to NaN.
\<close>

definition parse_score :: "jsstring \<Rightarrow> int option" where
  "parse_score reply =
     (case score_regex reply of
        Some g \<Rightarrow>
          (case parseInt10 g of
             Some n \<Rightarrow> Some (max 0 (min 100 n))
           | None \<Rightarrow> None)
      | None \<Rightarrow> None)"

section \<open>Values read from a response\<close>

text \<open>
  What the pages look at in a property of a parsed JSON body: whether it is there, its
  type, its truthiness, and its text when it is a string. A number carries only whether it
  is truthy (neither zero nor NaN); arrays and objects are \<open>JObject\<close>.
\<close>

datatype jsvalue =
    JUndefined
  | JNull
  | JBool bool
  | JNumber bool
  | JString jsstring
  | JObject

fun truthy :: "jsvalue \<Rightarrow> bool" where
  "truthy JUndefined = False"
| "truthy JNull = False"
| "truthy (JBool b) = b"
| "truthy (JNumber nonzero) = nonzero"
| "truthy (JString s) = (s \<noteq> [])"
| "truthy JObject = True"

text \<open>
  \<open>res.json()\<close> rejects (with an error whose \<open>message\<close> may be undefined), or yields
  \<open>null\<close>, on which reading a property throws a TypeError, or yields a value whose
  property \<open>reply\<close> (\<open>detail\<close> for an error response) is the \<open>jsvalue\<close>,
  \<open>JUndefined\<close> when the body has no such property.
\<close>

datatype body =
    JsonRejects "jsstring option"
  | JsonNull
  | JsonProp jsvalue

text \<open>\<open>fetch\<close> rejects with an error, or resolves to a response with \<open>res.ok\<close> and a body.\<close>

datatype fetch_result =
    FetchRejects "jsstring option"
  | Response bool body

text \<open>
  Truthiness of a value of type \<open>string | null\<close> (or of an optional string argument):
  \<open>null\<close>, \<open>undefined\<close> and the empty string are falsy. The stored session id,
  \<open>localStorage.getItem("greenpt_session_id")\<close>, is such a value.
\<close>

definition truthy_string :: "jsstring option \<Rightarrow> bool" where
  "truthy_string v = (case v of None \<Rightarrow> False | Some s \<Rightarrow> s \<noteq> [])"

text \<open>
  \<open>typeof detail.detail === "string" ? detail.detail : dflt\<close>.
\<close>

definition string_or :: "jsvalue \<Rightarrow> jsstring \<Rightarrow> jsstring" where
  "string_or v dflt = (case v of JString s \<Rightarrow> s | _ \<Rightarrow> dflt)"

section \<open>The match-summary page (\<open>SummaryPage\<close>)\<close>

definition FALLBACK_ANALYSIS_literal :: jsstring where
  "FALLBACK_ANALYSIS_literal = concat
    [[10],
     js ''SCORE: 78'',
     [10, 10],
     js ''STRENGTHS:'',
     [10],
     js ''- Strong alignment between your past experience and the core responsibilities of this role.'',
     [10],
     js ''- Clear motivation for working in a mission-driven / sustainability-focused organisation.'',
     [10],
     js ''- CV structure is clean and easy to scan, with relevant keywords likely to be picked up by ATS systems.'',
     [10],
     js ''- Demonstrated ownership of projects and measurable impact in previous roles.'',
     [10, 10],
     js ''IMPROVEMENTS:'',
     [10],
     js ''- Tailor your profile summary to explicitly mention this company and the role title.'',
     [10],
     js ''- Reorder experience so the most relevant and recent items for this role appear at the top.'',
     [10],
     js ''- Add 2'',
     [8211],
     js ''3 bullet points under each role that quantify impact (numbers, % improvements, time saved, revenue, etc.).'',
     [10],
     js ''- Mirror key terms from the job description (tools, frameworks, responsibilities) where they genuinely match your experience.'',
     [10],
     js ''- Briefly highlight any sustainability-related initiatives, volunteering or side projects more prominently.'',
     [10, 10],
     js ''SUMMARY:'',
     [10],
     js ''- Overall, you are a solid match for this role. With some light tailoring to this specific job description and company, your profile would likely stand out strongly in the initial screening.'',
     [10],
     js ''- Focus on making your most relevant skills and outcomes impossible to miss in the first half of your CV.'',
     [10],
     js ''- After these tweaks, your match score would likely increase further and your chances of moving to the interview stage should be significantly higher.'',
     [10]]"

definition FALLBACK_ANALYSIS :: jsstring where
  "FALLBACK_ANALYSIS = trim FALLBACK_ANALYSIS_literal"

record summary_page =
  sp_score :: "int option"
  sp_analysis :: jsstring
  sp_isLoading :: bool
  sp_error :: "jsstring option"
  sp_usingFallback :: bool

text \<open>The state of \<open>useState\<close> when the page mounts.\<close>

definition summary_page_init :: summary_page where
  "summary_page_init =
     \<lparr>sp_score = None, sp_analysis = [], sp_isLoading = True, sp_error = None,
      sp_usingFallback = False\<rparr>"

definition applySummary :: "jsstring \<Rightarrow> summary_page \<Rightarrow> summary_page" where
  "applySummary reply st = st\<lparr>sp_analysis := reply, sp_score := parse_score reply\<rparr>"

text \<open>\<open>reason\<close> is an optional string; \<open>if (reason)\<close> holds for a non-empty one.\<close>

definition applyFallback :: "jsstring option \<Rightarrow> summary_page \<Rightarrow> summary_page" where
  "applyFallback reason st =
     applySummary FALLBACK_ANALYSIS
       (st\<lparr>sp_error :=
              (case reason of
                 Some r \<Rightarrow>
                   if r \<noteq> [] then Some (r @ js '' Showing example feedback instead.'')
                   else Some (js ''Using example feedback instead of live analysis.'')
               | None \<Rightarrow> Some (js ''Using example feedback instead of live analysis.'')),
           sp_usingFallback := True\<rparr>)"

text \<open>
  \<open>fetchSummary\<close> from its first statement to the end of its \<open>finally\<close> block. The
  arguments are what the environment supplies: the stored session id, the outcome of the
  request, and \<open>tmsg\<close>, the \<open>message\<close> of the TypeError that the engine throws when
  \<open>.trim\<close> is called on a value without that method or a property of \<open>null\<close> is read.
  \<open>catch\<close> is the handler \<open>applyFallback(err?.message ?? "Failed to load summary.")\<close>.
\<close>

definition fetchSummary ::
    "jsstring option \<Rightarrow> fetch_result \<Rightarrow> jsstring option \<Rightarrow> summary_page \<Rightarrow> summary_page" where
  "fetchSummary sessionId res tmsg st0 =
     (let st = st0\<lparr>sp_isLoading := True, sp_error := None, sp_usingFallback := False\<rparr>;
          catch = (\<lambda>msg. applyFallback
                     (Some (case msg of Some m \<Rightarrow> m | None \<Rightarrow> js ''Failed to load summary.'')) st);
          st' =
            (if \<not> truthy_string sessionId
             then applyFallback
                    (Some (js ''No active session found. Please upload your data again.'')) st
             else case res of
               FetchRejects msg \<Rightarrow> catch msg
             | Response ok b \<Rightarrow>
                 if \<not> ok then
                   (case b of
                      JsonRejects _ \<Rightarrow> catch (Some (js ''Failed to get summary from backend''))
                    | JsonNull \<Rightarrow> catch tmsg
                    | JsonProp d \<Rightarrow> catch (Some (string_or d (js ''Failed to get summary.''))))
                 else
                   (case b of
                      JsonRejects msg \<Rightarrow> catch msg
                    | JsonNull \<Rightarrow> catch tmsg
                    | JsonProp r \<Rightarrow>
                        if \<not> truthy r then
                          applyFallback (Some (js ''Got an empty response from the backend.'')) st
                        else
                          (case r of
                             JString s \<Rightarrow>
                               (let reply = trim s in
                                if reply = [] then
                                  applyFallback
                                    (Some (js ''Got an empty response from the backend.'')) st
                                else applySummary reply st)
                           | _ \<Rightarrow> catch tmsg)))
      in st'\<lparr>sp_isLoading := False\<rparr>)"

section \<open>The interview-summary page (\<open>InterviewResultsPage\<close>)\<close>

definition FALLBACK_SUMMARY_literal :: jsstring where
  "FALLBACK_SUMMARY_literal = concat
    [[10],
     js ''Your interview summary is not available, so here is an example:'',
     [10, 10],
     js ''SCORE: 72'',
     [10, 10],
     js ''STRENGTHS:'',
     [10],
     js ''- You communicate clearly and stay on topic.'',
     [10],
     js ''- You provide relevant examples that match the questions.'',
     [10],
     js ''- Your motivation for the role comes across as genuine.'',
     [10, 10],
     js ''IMPROVEMENTS:'',
     [10],
     js ''- Add more concrete metrics and outcomes to your stories.'',
     [10],
     js ''- Use a clearer structure (STAR) for behavioral questions.'',
     [10],
     js ''- Make the link between your experience and this specific role more explicit.'',
     [10, 10],
     js ''SUMMARY:'',
     [10],
     js ''Overall, you have a strong foundation and good communication skills. With a bit more focus on structure, impact, and tailoring your answers to the job description, you can significantly improve your interview performance.'',
     [10],
     js ''  '']"

definition FALLBACK_SUMMARY :: jsstring where
  "FALLBACK_SUMMARY = trim FALLBACK_SUMMARY_literal"

record results_page =
  rp_summary :: "jsstring option"
  rp_score :: "int option"
  rp_isLoading :: bool
  rp_error :: "jsstring option"

definition results_page_init :: results_page where
  "results_page_init =
     \<lparr>rp_summary = None, rp_score = None, rp_isLoading = True, rp_error = None\<rparr>"

text \<open>
  \<open>reply.replace(/\*\*/g, "")\<close>: the input is scanned from the left, each match of two
  asterisks (code unit 42) is dropped and the scan resumes after it.
\<close>

fun remove_bold :: "jsstring \<Rightarrow> jsstring" where
  "remove_bold (a # b # cs) =
     (if a = 42 \<and> b = 42 then remove_bold cs else a # remove_bold (b # cs))"
| "remove_bold cs = cs"

definition applySummary_results :: "jsstring \<Rightarrow> results_page \<Rightarrow> results_page" where
  "applySummary_results reply st =
     (let cleaned = trim (remove_bold reply)
      in st\<lparr>rp_summary := Some cleaned, rp_score := parse_score cleaned\<rparr>)"

text \<open>
  \<open>fetchSummary\<close> of this page. Its \<open>catch\<close> is
  \<open>setError(err?.message || "Failed to load interview summary.")\<close> followed by
  \<open>applySummary(FALLBACK_SUMMARY)\<close>; \<open>||\<close> also replaces an empty message.
\<close>

definition fetchSummary_results ::
    "jsstring option \<Rightarrow> fetch_result \<Rightarrow> jsstring option \<Rightarrow> results_page \<Rightarrow> results_page" where
  "fetchSummary_results sessionId res tmsg st0 =
     (let st = st0\<lparr>rp_isLoading := True, rp_error := None\<rparr>;
          fallback = (\<lambda>e. applySummary_results FALLBACK_SUMMARY (st\<lparr>rp_error := Some e\<rparr>));
          catch = (\<lambda>msg. fallback
                     (case msg of
                        Some m \<Rightarrow> if m \<noteq> [] then m else js ''Failed to load interview summary.''
                      | None \<Rightarrow> js ''Failed to load interview summary.''));
          st' =
            (if \<not> truthy_string sessionId then fallback (js ''No active session found.'')
             else case res of
               FetchRejects msg \<Rightarrow> catch msg
             | Response ok b \<Rightarrow>
                 if \<not> ok then
                   (case b of
                      JsonRejects _ \<Rightarrow> catch (Some (js ''Failed to fetch interview summary.''))
                    | JsonNull \<Rightarrow> catch tmsg
                    | JsonProp d \<Rightarrow>
                        catch (Some (string_or d (js ''Failed to fetch interview summary.''))))
                 else
                   (case b of
                      JsonRejects msg \<Rightarrow> catch msg
                    | JsonNull \<Rightarrow> catch tmsg
                    | JsonProp r \<Rightarrow>
                        (case r of
                           JString s \<Rightarrow>
                             if s = [] then fallback (js ''Invalid summary format from backend.'')
                             else applySummary_results s st
                         | _ \<Rightarrow> fallback (js ''Invalid summary format from backend.''))))
      in st'\<lparr>rp_isLoading := False\<rparr>)"

text \<open>
  The earlier revision of the page keeps only the summary text: its failure branches call
  \<open>setSummary(FALLBACK_SUMMARY)\<close> and its success branch \<open>setSummary(data.reply.trim())\<close>.
\<close>

record results_page_v1 =
  rv_summary :: "jsstring option"
  rv_isLoading :: bool
  rv_error :: "jsstring option"

definition fetchSummary_results_v1 ::
    "jsstring option \<Rightarrow> fetch_result \<Rightarrow> jsstring option \<Rightarrow> results_page_v1 \<Rightarrow> results_page_v1"
  where
  "fetchSummary_results_v1 sessionId res tmsg st0 =
     (let st = st0\<lparr>rv_isLoading := True, rv_error := None\<rparr>;
          fallback = (\<lambda>e. st\<lparr>rv_error := Some e, rv_summary := Some FALLBACK_SUMMARY\<rparr>);
          catch = (\<lambda>msg. fallback
                     (case msg of
                        Some m \<Rightarrow> if m \<noteq> [] then m else js ''Failed to load interview summary.''
                      | None \<Rightarrow> js ''Failed to load interview summary.''));
          st' =
            (if \<not> truthy_string sessionId then fallback (js ''No active session found.'')
             else case res of
               FetchRejects msg \<Rightarrow> catch msg
             | Response ok b \<Rightarrow>
                 if \<not> ok then
                   (case b of
                      JsonRejects _ \<Rightarrow> catch (Some (js ''Failed to fetch interview summary.''))
                    | JsonNull \<Rightarrow> catch tmsg
                    | JsonProp d \<Rightarrow>
                        catch (Some (string_or d (js ''Failed to fetch interview summary.''))))
                 else
                   (case b of
                      JsonRejects msg \<Rightarrow> catch msg
                    | JsonNull \<Rightarrow> catch tmsg
                    | JsonProp r \<Rightarrow>
                        (case r of
                           JString s \<Rightarrow>
                             if s = [] then fallback (js ''Invalid summary format from backend.'')
                             else st\<lparr>rv_summary := Some (trim s)\<rparr>
                         | _ \<Rightarrow> fallback (js ''Invalid summary format from backend.''))))
      in st'\<lparr>rv_isLoading := False\<rparr>)"

text \<open>
  The section patterns of the render function, \<open>/STRENGTHS:([\s\S]*?)(?=IMPROVEMENTS:|$)/i\<close>,
  \<open>/IMPROVEMENTS:([\s\S]*?)(?=SUMMARY:|$)/i\<close> and \<open>/SUMMARY:([\s\S]*?)$/i\<close>. The lazy
  group takes the shortest run of code units after which the lookahead holds: the next
  marker matches, or the input ends.
\<close>

fun lazy_until :: "jsstring \<Rightarrow> jsstring \<Rightarrow> jsstring" where
  "lazy_until stop [] = []"
| "lazy_until stop (c # cs) =
     (case match_literal stop (c # cs) of
        Some _ \<Rightarrow> []
      | None \<Rightarrow> c # lazy_until stop cs)"

text \<open>
  \<open>summary.match(re)\<close> for a section pattern: the first index where the marker matches;
  the group after it cannot fail. \<open>stop = None\<close> is the pattern that ends in \<open>$\<close> alone,
  whose group runs to the end of the input. The result is capture group 1.
\<close>

fun section_regex :: "jsstring \<Rightarrow> jsstring option \<Rightarrow> jsstring \<Rightarrow> jsstring option" where
  "section_regex marker stop [] =
     (case match_literal marker [] of
        Some r \<Rightarrow> Some (case stop of None \<Rightarrow> r | Some t \<Rightarrow> lazy_until t r)
      | None \<Rightarrow> None)"
| "section_regex marker stop (c # cs) =
     (case match_literal marker (c # cs) of
        Some r \<Rightarrow> Some (case stop of None \<Rightarrow> r | Some t \<Rightarrow> lazy_until t r)
      | None \<Rightarrow> section_regex marker stop cs)"

record sections =
  strengths :: jsstring
  improvements :: jsstring
  overallSummary :: jsstring

text \<open>
  The three texts computed on every render of the interview-summary page from the
  \<open>summary\<close> state; \<open>if (summary)\<close> skips \<open>null\<close> and the empty string.
\<close>

definition parse_sections :: "jsstring option \<Rightarrow> sections" where
  "parse_sections summary =
     (case summary of
        None \<Rightarrow> \<lparr>strengths = [], improvements = [], overallSummary = []\<rparr>
      | Some s \<Rightarrow>
          if s = [] then \<lparr>strengths = [], improvements = [], overallSummary = []\<rparr>
          else
            \<lparr>strengths =
               (case section_regex (js ''STRENGTHS:'') (Some (js ''IMPROVEMENTS:'')) s of
                  Some g \<Rightarrow> trim g | None \<Rightarrow> []),
             improvements =
               (case section_regex (js ''IMPROVEMENTS:'') (Some (js ''SUMMARY:'')) s of
                  Some g \<Rightarrow> trim g | None \<Rightarrow> []),
             overallSummary =
               (case section_regex (js ''SUMMARY:'') None s of
                  Some g \<Rightarrow> trim g | None \<Rightarrow> trim s)\<rparr>)"

text \<open>
  What the page shows: the main content is rendered when loading is over and \<open>summary\<close>
  is truthy, and inside it each box is rendered when its text is non-empty. A box that is
  not rendered is \<open>None\<close>.
\<close>

record results_view =
  shown_strengths :: "jsstring option"
  shown_improvements :: "jsstring option"
  shown_overallSummary :: "jsstring option"

definition shown :: "bool \<Rightarrow> jsstring \<Rightarrow> jsstring option" where
  "shown main t = (if main \<and> t \<noteq> [] then Some t else None)"

definition render_results :: "results_page \<Rightarrow> results_view" where
  "render_results st =
     (let sec = parse_sections (rp_summary st);
          main = (\<not> rp_isLoading st \<and> truthy_string (rp_summary st))
      in \<lparr>shown_strengths = shown main (strengths sec),
          shown_improvements = shown main (improvements sec),
          shown_overallSummary = shown main (overallSummary sec)\<rparr>)"

section \<open>The upload page (\<open>UploadPage\<close>)\<close>

text \<open>
  \<open>cvFile\<close> is a \<open>File\<close> or \<open>null\<close>; only its presence is tested, so a file is modelled
  by its name.
\<close>

datatype upload_file = UploadFile jsstring

record upload_page =
  cvFile :: "upload_file option"
  jobDescription :: jsstring
  companyDetails :: jsstring
  up_isLoading :: bool
  up_error :: "jsstring option"

text \<open>The form data posted to \<open>/api/analyze\<close>.\<close>

record analyze_request =
  cv :: upload_file
  job_description :: jsstring
  company_info :: jsstring

text \<open>
  \<open>handleSubmit\<close> returns the new state and the request it sent, if any. \<open>succeeds\<close> says
  whether both \<open>fetch\<close> and \<open>res.json()\<close> resolve; otherwise the \<open>catch\<close> block runs.
\<close>

definition handleSubmit :: "bool \<Rightarrow> upload_page \<Rightarrow> upload_page \<times> analyze_request option" where
  "handleSubmit succeeds st0 =
     (let st = st0\<lparr>up_error := None\<rparr>
      in case cvFile st of
           None \<Rightarrow> (st\<lparr>up_error := Some (js ''Please upload your CV first.'')\<rparr>, None)
         | Some f \<Rightarrow>
             if trim (jobDescription st) = []
             then (st\<lparr>up_error := Some (js ''Please paste the job description.'')\<rparr>, None)
             else
               (let req = \<lparr>cv = f, job_description = jobDescription st,
                           company_info = companyDetails st\<rparr>;
                    st1 = (if succeeds then st
                           else st\<lparr>up_error :=
                                     Some (js ''Something went wrong while sending data.'')\<rparr>)
                in (st1\<lparr>up_isLoading := False\<rparr>, Some req)))"

section \<open>The interview set-up page (\<open>InterviewSetupPage\<close>)\<close>

definition interviewerBehaviorOptions :: "jsstring list" where
  "interviewerBehaviorOptions =
     [js ''Supportive & coaching'', js ''Neutral & professional'', js ''Challenging & direct'']"

definition difficultyOptions :: "jsstring list" where
  "difficultyOptions = [js ''Easy / warm-up'', js ''Standard role-level'', js ''Hard / stretch'']"

definition focusOptions :: "jsstring list" where
  "focusOptions = [js ''More behavioral'', js ''Balanced'', js ''More technical'']"

record setup_page =
  interviewerBehavior :: "jsstring option"
  difficulty :: "jsstring option"
  focus :: "jsstring option"
  su_error :: "jsstring option"
  isSubmitting :: bool

definition setup_page_init :: setup_page where
  "setup_page_init =
     \<lparr>interviewerBehavior = None, difficulty = None, focus = None, su_error = None,
      isSubmitting = False\<rparr>"

text \<open>
  \<open>renderOptionGroup\<close> draws one button per option; a click on button \<open>k\<close> of a group
  calls the setter of that group with option \<open>k\<close>. These clicks are the only writes to
  the three selections.
\<close>

datatype click = ClickFocus nat | ClickBehavior nat | ClickDifficulty nat

fun onSelect :: "setup_page \<Rightarrow> click \<Rightarrow> setup_page" where
  "onSelect st (ClickFocus k) =
     (if k < length focusOptions then st\<lparr>focus := Some (focusOptions ! k)\<rparr> else st)"
| "onSelect st (ClickBehavior k) =
     (if k < length interviewerBehaviorOptions
      then st\<lparr>interviewerBehavior := Some (interviewerBehaviorOptions ! k)\<rparr> else st)"
| "onSelect st (ClickDifficulty k) =
     (if k < length difficultyOptions
      then st\<lparr>difficulty := Some (difficultyOptions ! k)\<rparr> else st)"

text \<open>\<open>Array.prototype.indexOf\<close>: the first index of the element, \<open>-1\<close> when absent.\<close>

fun indexOf :: "'a list \<Rightarrow> 'a \<Rightarrow> int" where
  "indexOf [] x = - 1"
| "indexOf (y # ys) x =
     (if y = x then 0 else (let i = indexOf ys x in if i < 0 then - 1 else i + 1))"

text \<open>The request posted to \<open>/session/{id}/interview-config\<close>: the JSON array of its body.\<close>

record config_request =
  cfg_session :: jsstring
  cfg_body :: "int list"

text \<open>
  The \<open>try\<close> block of \<open>handleStartInterview\<close>, entered with the three selections and the
  session id at hand: the request is sent, then the state, the request and whether the
  page navigated to the interview are returned. \<open>catch\<close> is
  \<open>setError(err?.message ?? "Something went wrong starting the interview.")\<close>.
\<close>

definition send_config ::
    "jsstring \<Rightarrow> jsstring \<Rightarrow> jsstring \<Rightarrow> jsstring \<Rightarrow> fetch_result \<Rightarrow> jsstring option
       \<Rightarrow> setup_page \<Rightarrow> setup_page \<times> config_request option \<times> bool" where
  "send_config sid f b d res tmsg st =
     (let req = \<lparr>cfg_session = sid,
                 cfg_body = [indexOf focusOptions f + 1,
                             indexOf interviewerBehaviorOptions b + 1,
                             indexOf difficultyOptions d + 1]\<rparr>;
          catch = (\<lambda>msg.
            (st\<lparr>su_error :=
                  Some (case msg of
                          Some m \<Rightarrow> m
                        | None \<Rightarrow> js ''Something went wrong starting the interview.''),
                isSubmitting := False\<rparr>,
             Some req, False))
      in case res of
           FetchRejects msg \<Rightarrow> catch msg
         | Response ok body \<Rightarrow>
             if ok then (st\<lparr>isSubmitting := False\<rparr>, Some req, True)
             else
               (case body of
                  JsonRejects _ \<Rightarrow> catch (Some (js ''Failed to save interview settings.''))
                | JsonNull \<Rightarrow> catch tmsg
                | JsonProp v \<Rightarrow>
                    catch (Some (string_or v (js ''Failed to save interview settings.'')))))"

text \<open>
  \<open>handleStartInterview\<close>: the two guards, each of which sets an error and returns without
  a request, then the \<open>try\<close> block.
\<close>

definition handleStartInterview ::
    "jsstring option \<Rightarrow> fetch_result \<Rightarrow> jsstring option \<Rightarrow> setup_page
       \<Rightarrow> setup_page \<times> config_request option \<times> bool" where
  "handleStartInterview sessionId res tmsg st0 =
     (let st = st0\<lparr>su_error := None\<rparr>;
          unset =
            (st\<lparr>su_error :=
                  Some (js ''Please choose an option for each setting before starting.'')\<rparr>,
             None, False);
          no_session =
            (st\<lparr>su_error :=
                  Some (js ''No active session found. Please upload your data again first.'')\<rparr>,
             None, False)
      in case (interviewerBehavior st, difficulty st, focus st) of
           (Some b, Some d, Some f) \<Rightarrow>
             if b = [] \<or> d = [] \<or> f = [] then unset
             else
               (case sessionId of
                  None \<Rightarrow> no_session
                | Some sid \<Rightarrow> if sid = [] then no_session else send_config sid f b d res tmsg st)
         | _ \<Rightarrow> unset)"

section \<open>The interview page (\<open>InterviewPage\<close>)\<close>

definition TOTAL_QUESTIONS :: int where
  "TOTAL_QUESTIONS = 3"

definition QUESTION_DURATION :: int where
  "QUESTION_DURATION = 15"

definition MOCK_QUESTIONS :: "jsstring list" where
  "MOCK_QUESTIONS =
     [js ''Tell me about yourself and why you'' @ [39] @ js ''re interested in this role.'',
      js ''Describe a time you faced a major challenge at work. How did you handle it?'',
      js ''What'' @ [39] @ js ''s one sustainability initiative you'' @ [39]
        @ js ''re proud of contributing to?'']"

text \<open>The decimal text of an integer, as a template literal prints a whole number.\<close>

function nat_to_string :: "nat \<Rightarrow> jsstring" where
  "nat_to_string n =
     (if n < 10 then [48 + n] else nat_to_string (n div 10) @ [48 + n mod 10])"
  by pat_completeness auto
termination
  by (relation "measure id") auto

definition number_to_string :: "int \<Rightarrow> jsstring" where
  "number_to_string i =
     (if i < 0 then 45 # nat_to_string (nat (- i)) else nat_to_string (nat i))"

text \<open>An audio blob is modelled by its \<open>size\<close>, the only thing the page reads.\<close>

datatype blob = Blob nat

fun blob_size :: "blob \<Rightarrow> nat" where
  "blob_size (Blob n) = n"

text \<open>
  The state of the component: the \<open>useState\<close> cells and the refs the handlers read and
  write. The question texts are \<open>jsvalue\<close>s because the page stores whatever truthy
  \<open>reply\<close> the backend sent. The timer and the media recorder are outside the model; the
  calls they make are the events further down.
\<close>

record interview_page =
  question :: jsvalue
  questionIndex :: int
  timeLeft :: int
  isRecording :: bool
  isLoadingQuestion :: bool
  isUploadingAnswer :: bool
  isProcessingUpload :: bool
  ip_error :: "jsstring option"
  isFinished :: bool
  responseAIinterview :: jsvalue
  audioChunksRef :: "blob list"
  nextQuestionOverrideRef :: jsvalue
  processingUploadRef :: bool

definition interview_page_init :: interview_page where
  "interview_page_init =
     \<lparr>question = JNull, questionIndex = 1, timeLeft = QUESTION_DURATION, isRecording = False,
      isLoadingQuestion = True, isUploadingAnswer = False, isProcessingUpload = False,
      ip_error = None, isFinished = False, responseAIinterview = JString [],
      audioChunksRef = [], nextQuestionOverrideRef = JNull, processingUploadRef = False\<rparr>"

text \<open>
  What the environment supplies to a handler: the stored session id, the outcome of the
  \<open>/start\<close> request that the question effect makes, the \<open>message\<close> of an
  engine-raised TypeError, and the \<open>questionIndex\<close> that the running \<open>uploadAnswer\<close>
  closure sees. The timer callback and the recorder's \<open>stop\<close> listener keep the
  \<open>uploadAnswer\<close> of the render in which they were set up, so this value can be older
  than the \<open>questionIndex\<close> of the state; the state itself is only advanced through
  \<open>setQuestionIndex((prev) => prev + 1)\<close>, which reads the current value.
\<close>

record env =
  env_session :: "jsstring option"
  env_question :: fetch_result
  env_tmsg :: "jsstring option"
  env_closure_index :: int

text \<open>\<open>MOCK_QUESTIONS[questionIndex - 1] ?? `Practice question ${questionIndex}`\<close>.\<close>

definition useMockQuestion :: "interview_page \<Rightarrow> interview_page" where
  "useMockQuestion st =
     (let i = questionIndex st - 1
      in st\<lparr>question :=
             JString (if 0 \<le> i \<and> i < int (length MOCK_QUESTIONS) then MOCK_QUESTIONS ! nat i
                      else js ''Practice question '' @ number_to_string (questionIndex st))\<rparr>)"

text \<open>
  The effect that depends on \<open>questionIndex\<close>: it runs after the first render and after
  every render in which the index changed. Past the last question it sets \<open>isFinished\<close>
  and stops; otherwise \<open>fetchQuestion\<close> runs, taken here from start to end.
\<close>

definition questionEffect :: "env \<Rightarrow> interview_page \<Rightarrow> interview_page" where
  "questionEffect e st0 =
     (if questionIndex st0 > TOTAL_QUESTIONS then st0\<lparr>isFinished := True\<rparr>
      else
        (let st = st0\<lparr>isLoadingQuestion := True, ip_error := None, question := JNull,
                      timeLeft := QUESTION_DURATION, isRecording := False\<rparr>;
             practice = (\<lambda>msg. useMockQuestion (st\<lparr>ip_error := Some msg\<rparr>));
             catch = (\<lambda>msg. practice
                        ((case msg of Some m \<Rightarrow> m | None \<Rightarrow> js ''Failed to load question.'')
                         @ js '' Using practice questions instead.''));
             st' =
               (if truthy (nextQuestionOverrideRef st)
                then st\<lparr>question := nextQuestionOverrideRef st, nextQuestionOverrideRef := JNull\<rparr>
                else if \<not> truthy_string (env_session e)
                then practice (js ''No active session found. Showing practice questions instead.'')
                else case env_question e of
                  FetchRejects msg \<Rightarrow> catch msg
                | Response ok b \<Rightarrow>
                    if \<not> ok then
                      (case b of
                         JsonRejects _ \<Rightarrow>
                           practice (js ''Failed to fetch question. Using mock.''
                                     @ js '' Using practice questions instead.'')
                       | JsonNull \<Rightarrow> catch (env_tmsg e)
                       | JsonProp d \<Rightarrow>
                           practice
                             (case d of
                                JString m \<Rightarrow> m @ js '' Using practice questions instead.''
                              | _ \<Rightarrow>
                                js ''Failed to fetch question. Using practice questions instead.''))
                    else
                      (case b of
                         JsonRejects msg \<Rightarrow> catch msg
                       | JsonNull \<Rightarrow> catch (env_tmsg e)
                       | JsonProp r \<Rightarrow>
                           st\<lparr>question :=
                                (if truthy r then r
                                 else JString (js ''Question ''
                                               @ number_to_string (questionIndex st)))\<rparr>))
         in st'\<lparr>isLoadingQuestion := False\<rparr>))"

text \<open>
  The multipart request of \<open>uploadAnswer\<close>. Its \<open>question_index\<close> field is the
  \<open>questionIndex\<close> that the running closure sees, which the same closure reads again
  after the response for the default text of the next question.
\<close>

record upload_request =
  ur_session :: jsstring
  ur_question_index :: int
  ur_audio :: blob

text \<open>
  The \<open>finally\<close> block of \<open>uploadAnswer\<close>, and its \<open>catch\<close> block followed by \<open>finally\<close>.
\<close>

definition upload_finally :: "interview_page \<Rightarrow> interview_page" where
  "upload_finally st =
     st\<lparr>isUploadingAnswer := False, isProcessingUpload := False, processingUploadRef := False\<rparr>"

definition upload_catch :: "jsstring option \<Rightarrow> interview_page \<Rightarrow> interview_page" where
  "upload_catch msg st =
     upload_finally
       (st\<lparr>ip_error :=
             Some (case msg of Some m \<Rightarrow> m | None \<Rightarrow> js ''Failed to upload answer.'')\<rparr>)"

text \<open>
  \<open>uploadAnswer\<close> up to its first \<open>await\<close>, which is all that runs before the function
  yields: the guard on the ref, the practice-mode advance without a session, the flags,
  the check of the audio, and the request. \<open>closureIndex\<close> is the \<open>questionIndex\<close> that
  the closure sees. The result is the state at that point and the request that was sent,
  if one was.
\<close>

definition uploadAnswer_begin ::
    "int \<Rightarrow> jsstring option \<Rightarrow> blob option \<Rightarrow> interview_page
       \<Rightarrow> interview_page \<times> upload_request option" where
  "uploadAnswer_begin closureIndex sessionId audioBlob st =
     (if processingUploadRef st then (st, None)
      else
        (case sessionId of
           None \<Rightarrow> (st\<lparr>questionIndex := questionIndex st + 1\<rparr>, None)
         | Some sid \<Rightarrow>
             if sid = [] then (st\<lparr>questionIndex := questionIndex st + 1\<rparr>, None)
             else
               (let st1 = st\<lparr>processingUploadRef := True, isProcessingUpload := True,
                              isUploadingAnswer := True, ip_error := None\<rparr>;
                    no_audio =
                      (upload_catch
                         (Some (js ''No audio captured for this answer. Please re-record.'')) st1,
                       None)
                in case audioBlob of
                     None \<Rightarrow> no_audio
                   | Some a \<Rightarrow>
                       if blob_size a = 0 then no_audio
                       else (st1, Some \<lparr>ur_session = sid,
                                        ur_question_index = closureIndex,
                                        ur_audio = a\<rparr>))))"

text \<open>
  The rest of \<open>uploadAnswer\<close>, run when the request settles: the response is read, the
  \<open>finally\<close> block clears the flags and the ref, and only then, if \<open>succeeded\<close> was set,
  the index is advanced with \<open>setQuestionIndex((prev) => prev + 1)\<close>.
\<close>

definition uploadAnswer_end ::
    "fetch_result \<Rightarrow> jsstring option \<Rightarrow> upload_request \<Rightarrow> interview_page \<Rightarrow> interview_page"
  where
  "uploadAnswer_end res tmsg req st =
     (case res of
        FetchRejects msg \<Rightarrow> upload_catch msg st
      | Response ok b \<Rightarrow>
          if \<not> ok then
            (case b of
               JsonRejects _ \<Rightarrow> upload_catch (Some (js ''Failed to upload answer.'')) st
             | JsonNull \<Rightarrow> upload_catch tmsg st
             | JsonProp d \<Rightarrow>
                 upload_catch (Some (string_or d (js ''Failed to upload answer.''))) st)
          else
            (case b of
               JsonRejects msg \<Rightarrow> upload_catch msg st
             | JsonNull \<Rightarrow> upload_catch tmsg st
             | JsonProp r \<Rightarrow>
                 (let nextQuestion =
                        (if truthy r then r
                         else JString (js ''Question ''
                                       @ number_to_string (ur_question_index req + 1)));
                      st1 = upload_finally
                              (st\<lparr>responseAIinterview := nextQuestion,
                                  nextQuestionOverrideRef := nextQuestion\<rparr>)
                  in st1\<lparr>questionIndex := questionIndex st1 + 1\<rparr>)))"

text \<open>
  One call of \<open>uploadAnswer\<close> from start to end, with nothing else in between: \<open>res\<close> is
  how its request settles, if it sends one.
\<close>

definition uploadAnswer ::
    "env \<Rightarrow> blob option \<Rightarrow> fetch_result \<Rightarrow> interview_page \<Rightarrow> interview_page" where
  "uploadAnswer e audioBlob res st =
     (case uploadAnswer_begin (env_closure_index e) (env_session e) audioBlob st of
        (st1, None) \<Rightarrow> st1
      | (st1, Some req) \<Rightarrow> uploadAnswer_end res (env_tmsg e) req st1)"

text \<open>
  After a handler has run React renders again, and the question effect runs if the index
  changed in that render.
\<close>

definition rerender :: "env \<Rightarrow> interview_page \<Rightarrow> interview_page \<Rightarrow> interview_page" where
  "rerender e before st =
     (if questionIndex st \<noteq> questionIndex before then questionEffect e st else st)"

text \<open>One answer submission: the call of \<open>uploadAnswer\<close> and the render that follows.\<close>

record submission =
  sub_env :: env
  sub_audio :: "blob option"
  sub_response :: fetch_result

definition submitAnswer :: "interview_page \<Rightarrow> submission \<Rightarrow> interview_page" where
  "submitAnswer st sub =
     rerender (sub_env sub) st (uploadAnswer (sub_env sub) (sub_audio sub) (sub_response sub) st)"

text \<open>
  The request that a submission sends, if any: the one that its call of \<open>uploadAnswer\<close>
  issues before it yields.
\<close>

definition submitted_request :: "interview_page \<Rightarrow> submission \<Rightarrow> upload_request option" where
  "submitted_request st sub =
     snd (uploadAnswer_begin (env_closure_index (sub_env sub)) (env_session (sub_env sub))
            (sub_audio sub) st)"

text \<open>
  A submission succeeds, in the sense of the page, when the index is to advance: there is
  no stored session (practice mode), or non-empty audio was sent and the response was a
  success whose body could be read (the \<open>succeeded\<close> variable).
\<close>

definition succeeded :: "submission \<Rightarrow> bool" where
  "succeeded sub \<longleftrightarrow>
     \<not> truthy_string (env_session (sub_env sub)) \<or>
     ((case sub_audio sub of None \<Rightarrow> False | Some a \<Rightarrow> blob_size a \<noteq> 0) \<and>
      (case sub_response sub of Response True (JsonProp r) \<Rightarrow> True | _ \<Rightarrow> False))"

text \<open>
  The page as an event system. JavaScript runs one handler at a time and yields only at an
  \<open>await\<close>, so between the two halves of \<open>uploadAnswer\<close> other handlers may run. The
  system state is the page state and the answer uploads that were sent and have not
  settled yet.
\<close>

record system =
  page :: interview_page
  in_flight :: "upload_request list"

datatype event =
    CallUploadAnswer env "blob option"
  | RecorderStop env
  | DataAvailable blob
  | UploadSettles env fetch_result

text \<open>
  The listener of the recorder's \<open>stop\<close> event: it returns at once when the ref is set,
  and otherwise builds the blob from the recorded chunks, empties the chunk list and calls
  the \<open>uploadAnswer\<close> of the render in which the listener was registered.
\<close>

definition recorder_stop ::
    "int \<Rightarrow> jsstring option \<Rightarrow> interview_page
       \<Rightarrow> interview_page \<times> upload_request option" where
  "recorder_stop closureIndex sessionId st =
     (if processingUploadRef st then (st, None)
      else uploadAnswer_begin closureIndex sessionId
             (Some (Blob (sum_list (map blob_size (audioChunksRef st)))))
             (st\<lparr>audioChunksRef := []\<rparr>))"

definition sent :: "upload_request option \<Rightarrow> upload_request list" where
  "sent r = (case r of None \<Rightarrow> [] | Some req \<Rightarrow> [req])"

text \<open>
  One event: a call of \<open>uploadAnswer\<close> (from the timer through \<open>autoAdvance\<close>), the
  recorder's \<open>stop\<close> and \<open>dataavailable\<close> events, and the settling of the oldest upload in
  flight, which resumes the call that sent it.
\<close>

fun step :: "system \<Rightarrow> event \<Rightarrow> system" where
  "step sys (CallUploadAnswer e a) =
     (case uploadAnswer_begin (env_closure_index e) (env_session e) a (page sys) of
        (st, r) \<Rightarrow> \<lparr>page = rerender e (page sys) st, in_flight = in_flight sys @ sent r\<rparr>)"
| "step sys (RecorderStop e) =
     (case recorder_stop (env_closure_index e) (env_session e) (page sys) of
        (st, r) \<Rightarrow> \<lparr>page = rerender e (page sys) st, in_flight = in_flight sys @ sent r\<rparr>)"
| "step sys (DataAvailable b) =
     sys\<lparr>page := (page sys)\<lparr>audioChunksRef := audioChunksRef (page sys) @ [b]\<rparr>\<rparr>"
| "step sys (UploadSettles e res) =
     (case in_flight sys of
        [] \<Rightarrow> sys
      | req # rest \<Rightarrow>
          \<lparr>page = rerender e (page sys) (uploadAnswer_end res (env_tmsg e) req (page sys)),
           in_flight = rest\<rparr>)"

text \<open>The system when the page has mounted and its first effect has run.\<close>

definition system_init :: "env \<Rightarrow> system" where
  "system_init e = \<lparr>page = questionEffect e interview_page_init, in_flight = []\<rparr>"

section \<open>Notions used to state the properties\<close>

text \<open>
  \<open>spells marker w\<close>: the code units \<open>w\<close> are the marker text in some mix of upper and
  lower case. \<open>has_marker marker s\<close>: the marker, in some letter case, occurs somewhere in
  \<open>s\<close>.
\<close>

definition spells :: "string \<Rightarrow> jsstring \<Rightarrow> bool" where
  "spells marker w \<longleftrightarrow> map canonicalize w = map canonicalize (js marker)"

definition has_marker :: "string \<Rightarrow> jsstring \<Rightarrow> bool" where
  "has_marker marker s \<longleftrightarrow>
     list_ex (\<lambda>i. spells marker (take (length marker) (drop i s))) [0..<Suc (length s)]"

text \<open>Two asterisks side by side somewhere in the text.\<close>

fun has_bold :: "jsstring \<Rightarrow> bool" where
  "has_bold (a # b # cs) = ((a = 42 \<and> b = 42) \<or> has_bold (b # cs))"
| "has_bold cs = False"

text \<open>
  The outcome of the match-summary request that the page treats as a live analysis: a
  session id is stored, the response is a success, and its \<open>reply\<close> is a string that is
  not blank. Every other outcome is a failure.
\<close>

definition live_reply :: "jsstring option \<Rightarrow> fetch_result \<Rightarrow> jsstring option" where
  "live_reply sessionId res =
     (if \<not> truthy_string sessionId then None
      else case res of
             Response True (JsonProp (JString s)) \<Rightarrow> if trim s = [] then None else Some (trim s)
           | _ \<Rightarrow> None)"

text \<open>A selection is either unset or one of the options of its group.\<close>

definition picked :: "jsstring list \<Rightarrow> jsstring option \<Rightarrow> bool" where
  "picked opts v \<longleftrightarrow> v = None \<or> (\<exists>k<length opts. v = Some (opts ! k))"

text \<open>
  The invariant of the event system: at most one upload is in flight, and the ref is set
  exactly while one is.
\<close>

definition guarded :: "system \<Rightarrow> bool" where
  "guarded sys \<longleftrightarrow>
     length (in_flight sys) \<le> 1 \<and> (processingUploadRef (page sys) \<longleftrightarrow> in_flight sys \<noteq> [])"

text \<open>The evaluation rules for the string functions on concrete texts.\<close>

lemmas js_eval =
  js_def isWhiteSpace_def isDigit_def canonicalize_def trim_def decimal_def parseInt10_def
  match_digits_def score_regex_here_def parse_score_def spells_def has_marker_def Let_def

section \<open>Facts about the string functions\<close>

lemma digit_not_space: "isDigit c \<Longrightarrow> \<not> isWhiteSpace c"
  by (auto simp: isDigit_def isWhiteSpace_def)

lemma match_literal_spelled:
  "map canonicalize m = map canonicalize p \<Longrightarrow> match_literal p (m @ r) = Some r"
proof (induction p arbitrary: m)
  case Nil
  then show ?case by simp
next
  case (Cons a p)
  then obtain c cs where m: "m = c # cs" by (cases m) auto
  with Cons show ?case by simp
qed

lemma match_literal_Some:
  "match_literal p s = Some r \<Longrightarrow> \<exists>m. s = m @ r \<and> map canonicalize m = map canonicalize p"
proof (induction p s rule: match_literal.induct)
  case (1 s)
  then show ?case by simp
next
  case (2 p ps)
  then show ?case by simp
next
  case (3 p ps c cs)
  then have eq: "canonicalize c = canonicalize p" and rec: "match_literal ps cs = Some r"
    by (auto split: if_splits)
  from 3(1)[OF eq rec] obtain m where "cs = m @ r" "map canonicalize m = map canonicalize ps"
    by blast
  with eq have "c # cs = (c # m) @ r \<and> map canonicalize (c # m) = map canonicalize (p # ps)"
    by simp
  then show ?case by blast
qed


lemma match_digits_props:
  "match_digits s = Some g \<Longrightarrow> g \<noteq> [] \<and> length g \<le> 3 \<and> (\<forall>c\<in>set g. isDigit c)"
proof -
  assume a: "match_digits s = Some g"
  then have g: "g = takeWhile isDigit (take 3 s)" and ne: "g \<noteq> []"
    by (auto simp: match_digits_def Let_def split: if_splits)
  have "length g \<le> length (take 3 s)" unfolding g by (rule length_takeWhile_le)
  then have "length g \<le> 3" by simp
  moreover have "\<forall>c\<in>set g. isDigit c" unfolding g by (auto dest: set_takeWhileD)
  ultimately show ?thesis using ne by simp
qed

lemma match_digits_None_space: "isWhiteSpace c \<Longrightarrow> match_digits (c # cs) = None"
  by (auto simp: match_digits_def dest: digit_not_space)

lemma match_space_digits_skip:
  "\<forall>c\<in>set ws. isWhiteSpace c \<Longrightarrow> match_digits s = Some g \<Longrightarrow>
     match_space_digits (ws @ s) = Some g"
proof (induction ws)
  case Nil
  then show ?case
    by (cases s) (auto simp: match_digits_None_space)
next
  case (Cons a ws)
  then show ?case by simp
qed

lemma match_space_digits_props:
  "match_space_digits s = Some g \<Longrightarrow> g \<noteq> [] \<and> length g \<le> 3 \<and> (\<forall>c\<in>set g. isDigit c)"
  by (induction s) (auto split: if_splits option.splits dest: match_digits_props)

lemma score_regex_props:
  "score_regex s = Some g \<Longrightarrow> g \<noteq> [] \<and> length g \<le> 3 \<and> (\<forall>c\<in>set g. isDigit c)"
proof (induction s)
  case Nil
  then show ?case
    by (auto simp: score_regex_here_def split: option.splits dest: match_space_digits_props)
next
  case (Cons a s)
  then show ?case
    by (auto simp: score_regex_here_def split: option.splits dest: match_space_digits_props)
qed



lemma decimal_snoc: "decimal (ds @ [d]) = 10 * decimal ds + (int d - 48)"
  by (simp add: decimal_def)

lemma decimal_bounds:
  "\<forall>c\<in>set ds. isDigit c \<Longrightarrow> 0 \<le> decimal ds \<and> decimal ds < 10 ^ length ds"
proof (induction ds rule: rev_induct)
  case Nil
  then show ?case by (simp add: decimal_def)
next
  case (snoc d ds)
  then have d: "48 \<le> d" "d \<le> 57" and ih: "0 \<le> decimal ds" "decimal ds < 10 ^ length ds"
    by (auto simp: isDigit_def)
  from ih(2) have "decimal ds + 1 \<le> 10 ^ length ds" by simp
  then have "10 * decimal ds + 10 \<le> 10 * 10 ^ length ds" by simp
  with d ih(1) show ?case by (simp add: decimal_snoc)
qed

lemma parseInt10_digits:
  assumes "ds \<noteq> []" "\<forall>c\<in>set ds. isDigit c"
  shows "parseInt10 ds = Some (decimal ds)"
proof -
  obtain c cs where ds: "ds = c # cs" using assms(1) by (cases ds) auto
  with assms(2) have c: "isDigit c" by simp
  then have nws: "\<not> isWhiteSpace c" by (rule digit_not_space)
  from c have sign: "c \<noteq> 43" "c \<noteq> 45" by (auto simp: isDigit_def)
  have tw: "takeWhile isDigit (c # cs) = c # cs" using assms(2) ds by simp
  show ?thesis
    unfolding parseInt10_def ds using nws sign tw by (simp add: Let_def)
qed





lemma match_space_digits_shape:
  "match_space_digits s = Some g \<Longrightarrow>
     \<exists>ws d r. s = ws @ d # r \<and> (\<forall>c\<in>set ws. isWhiteSpace c) \<and> isDigit d"
proof (induction s)
  case Nil
  then show ?case by (simp add: match_digits_def)
next
  case (Cons c cs)
  show ?case
  proof (cases "match_digits (c # cs)")
    case (Some g')
    then have "isDigit c"
      by (auto simp: match_digits_def Let_def split: if_splits)
    then have "c # cs = [] @ c # cs \<and> (\<forall>x\<in>set []. isWhiteSpace x) \<and> isDigit c" by simp
    then show ?thesis by blast
  next
    case None
    with Cons.prems have w: "isWhiteSpace c" and rec: "match_space_digits cs = Some g"
      by (auto split: if_splits option.splits)
    from Cons.IH[OF rec] obtain ws d r where
      "cs = ws @ d # r" "\<forall>x\<in>set ws. isWhiteSpace x" "isDigit d" by blast
    with w have "c # cs = (c # ws) @ d # r \<and> (\<forall>x\<in>set (c # ws). isWhiteSpace x) \<and> isDigit d"
      by simp
    then show ?thesis by blast
  qed
qed

lemma match_digits_digit: "isDigit d \<Longrightarrow> \<exists>g. match_digits (d # r) = Some g"
  by (simp add: match_digits_def)

text \<open>
  The pattern matches at the start of a text exactly when the text begins with the
  marker in some letter case, then any white space, then a digit.
\<close>

lemma score_regex_here_iff:
  "score_regex_here s \<noteq> None \<longleftrightarrow>
     (\<exists>m ws d r. s = m @ ws @ d # r \<and> spells ''SCORE:'' m
        \<and> (\<forall>c\<in>set ws. isWhiteSpace c) \<and> isDigit d)"
proof
  assume "score_regex_here s \<noteq> None"
  then obtain r1 g where l: "match_literal (js ''SCORE:'') s = Some r1"
    and g: "match_space_digits r1 = Some g"
    by (auto simp: score_regex_here_def split: option.splits)
  from match_literal_Some[OF l] obtain m where
    m: "s = m @ r1" "map canonicalize m = map canonicalize (js ''SCORE:'')" by blast
  from match_space_digits_shape[OF g] obtain ws d r where
    w: "r1 = ws @ d # r" "\<forall>c\<in>set ws. isWhiteSpace c" "isDigit d" by blast
  from m w have "s = m @ ws @ d # r \<and> spells ''SCORE:'' m
        \<and> (\<forall>c\<in>set ws. isWhiteSpace c) \<and> isDigit d"
    by (simp add: spells_def)
  then show "\<exists>m ws d r. s = m @ ws @ d # r \<and> spells ''SCORE:'' m
        \<and> (\<forall>c\<in>set ws. isWhiteSpace c) \<and> isDigit d" by blast
next
  assume "\<exists>m ws d r. s = m @ ws @ d # r \<and> spells ''SCORE:'' m
        \<and> (\<forall>c\<in>set ws. isWhiteSpace c) \<and> isDigit d"
  then obtain m ws d r where s: "s = m @ ws @ d # r" and m: "spells ''SCORE:'' m"
    and w: "\<forall>c\<in>set ws. isWhiteSpace c" and d: "isDigit d" by blast
  from match_digits_digit[OF d, of r] obtain g where "match_digits (d # r) = Some g" by blast
  with w have "match_space_digits (ws @ d # r) = Some g" by (rule match_space_digits_skip)
  moreover have "match_literal (js ''SCORE:'') (m @ ws @ d # r) = Some (ws @ d # r)"
    using m by (intro match_literal_spelled) (simp add: spells_def)
  ultimately show "score_regex_here s \<noteq> None"
    by (simp add: score_regex_here_def s)
qed

section \<open>The score shown by the summary pages\<close>



section \<open>The score stays in range\<close>


lemma parse_score_range: "parse_score r = Some n \<Longrightarrow> 0 \<le> n \<and> n \<le> 100"
  by (auto simp: parse_score_def split: option.splits)

lemma fetchSummary_score:
  "\<exists>r. sp_score (fetchSummary sessionId res tmsg st) = parse_score r"
  by (auto simp: fetchSummary_def applyFallback_def applySummary_def Let_def
      split: fetch_result.splits body.splits jsvalue.splits)

lemma fetchSummary_results_score:
  "\<exists>r. rp_score (fetchSummary_results sessionId res tmsg st) = parse_score r"
  by (auto simp: fetchSummary_results_def applySummary_results_def Let_def
      split: fetch_result.splits body.splits jsvalue.splits)

lemma group_value:
  assumes "score_regex reply = Some g"
  shows "parseInt10 g = Some (decimal g) \<and> 0 \<le> decimal g \<and> decimal g \<le> 999"
proof -
  from score_regex_props[OF assms] have g: "g \<noteq> []" "length g \<le> 3" "\<forall>c\<in>set g. isDigit c"
    by auto
  from decimal_bounds[OF g(3)] have b: "0 \<le> decimal g" "decimal g < 10 ^ length g" by auto
  have "(10::int) ^ length g \<le> 10 ^ 3" using g(2) by (intro power_increasing) auto
  with b(2) have "decimal g < 1000" by simp
  with b(1) parseInt10_digits[OF g(1,3)] show ?thesis by simp
qed

text \<open>
  C9. Every path that sets the displayed score keeps it in range: after \<open>applySummary\<close>,
  after \<open>applyFallback\<close> and after a whole \<open>fetchSummary\<close>, on the match-summary page
  and on the interview-summary page, a score that is not \<open>null\<close> lies between 0 and 100.
  Moreover the group that the score pattern captures always parses to a number (never
  NaN) between 0 and 999, so the lower clamp \<open>Math.max(0, _)\<close> never changes the value.
\<close>
theorem score_in_range:
  "(\<forall>n. sp_score (applySummary reply st) = Some n \<longrightarrow> 0 \<le> n \<and> n \<le> 100)
   \<and> (\<forall>n. sp_score (applyFallback reason st) = Some n \<longrightarrow> 0 \<le> n \<and> n \<le> 100)
   \<and> (\<forall>n. sp_score (fetchSummary sessionId res tmsg st) = Some n \<longrightarrow> 0 \<le> n \<and> n \<le> 100)
   \<and> (\<forall>n. rp_score (applySummary_results reply rst) = Some n \<longrightarrow> 0 \<le> n \<and> n \<le> 100)
   \<and> (\<forall>n. rp_score (fetchSummary_results sessionId res tmsg rst) = Some n
          \<longrightarrow> 0 \<le> n \<and> n \<le> 100)
   \<and> (\<forall>g. score_regex reply = Some g \<longrightarrow>
          (\<exists>n. parseInt10 g = Some n \<and> 0 \<le> n \<and> n \<le> 999
               \<and> max 0 (min 100 n) = min 100 n))"
proof (intro conjI allI impI)
  fix n assume "sp_score (applySummary reply st) = Some n"
  then show "0 \<le> n" "n \<le> 100"
    using parse_score_range[of reply n] by (simp_all add: applySummary_def)
next
  fix n assume "sp_score (applyFallback reason st) = Some n"
  then show "0 \<le> n" "n \<le> 100"
    using parse_score_range[of FALLBACK_ANALYSIS n]
    by (simp_all add: applyFallback_def applySummary_def)
next
  fix n assume a: "sp_score (fetchSummary sessionId res tmsg st) = Some n"
  obtain r where "sp_score (fetchSummary sessionId res tmsg st) = parse_score r"
    using fetchSummary_score by blast
  with a show "0 \<le> n" "n \<le> 100" using parse_score_range[of r n] by simp_all
next
  fix n assume "rp_score (applySummary_results reply rst) = Some n"
  then show "0 \<le> n" "n \<le> 100"
    using parse_score_range[of "trim (remove_bold reply)" n]
    by (simp_all add: applySummary_results_def Let_def)
next
  fix n assume a: "rp_score (fetchSummary_results sessionId res tmsg rst) = Some n"
  obtain r where "rp_score (fetchSummary_results sessionId res tmsg rst) = parse_score r"
    using fetchSummary_results_score by blast
  with a show "0 \<le> n" "n \<le> 100" using parse_score_range[of r n] by simp_all
next
  fix g assume "score_regex reply = Some g"
  from group_value[OF this]
  show "\<exists>n. parseInt10 g = Some n \<and> 0 \<le> n \<and> n \<le> 999 \<and> max 0 (min 100 n) = min 100 n"
    by auto
qed

theorem score_in_range_witness:
  "sp_score (applySummary (js ''SCORE: 140'') summary_page_init) = Some 100
   \<and> (0::int) \<le> 100 \<and> (100::int) \<le> 100
   \<and> score_regex (js ''SCORE: 140'') = Some (js ''140'')
   \<and> parseInt10 (js ''140'') = Some 140 \<and> max 0 (min 100 140) = min 100 (140::int)"
proof -
  have s: "sp_score (applySummary (js ''SCORE: 140'') summary_page_init) = Some 100"
    by (simp add: applySummary_def js_eval)
  have g: "score_regex (js ''SCORE: 140'') = Some (js ''140'')"
    by (simp add: js_eval)
  have p: "parseInt10 (js ''140'') = Some 140"
    by (simp add: js_eval)
  from s have "(0::int) \<le> 100 \<and> (100::int) \<le> 100"
    using score_in_range[of "js ''SCORE: 140''" summary_page_init None None
        "Response True JsonNull" None results_page_init, THEN conjunct1, rule_format, of 100]
    by blast
  with s g p show ?thesis by simp
qed

section \<open>The match-summary page never ends empty\<close>

lemma trim_Nil: "trim [] = []"
  by (simp add: trim_def)

lemma dropWhile_keeps: "c \<in> set s \<Longrightarrow> \<not> P c \<Longrightarrow> c \<in> set (dropWhile P s)"
  by (induction s) auto

lemma trim_nonempty:
  assumes "c \<in> set s" "\<not> isWhiteSpace c"
  shows "trim s \<noteq> []"
proof -
  have "c \<in> set (dropWhile isWhiteSpace s)" using assms by (rule dropWhile_keeps)
  then have "c \<in> set (rev (dropWhile isWhiteSpace s))" by simp
  then have "c \<in> set (dropWhile isWhiteSpace (rev (dropWhile isWhiteSpace s)))"
    using assms(2) by (rule dropWhile_keeps)
  then have "dropWhile isWhiteSpace (rev (dropWhile isWhiteSpace s)) \<noteq> []"
    by (metis empty_iff empty_set)
  then show ?thesis by (simp add: trim_def)
qed

lemma FALLBACK_ANALYSIS_nonempty: "FALLBACK_ANALYSIS \<noteq> []"
proof -
  have "83 \<in> set (js ''SCORE: 78'')" by (simp add: js_def)
  moreover have "js ''SCORE: 78'' \<in> set [[10], js ''SCORE: 78'']" by simp
  ultimately have "83 \<in> set FALLBACK_ANALYSIS_literal"
    unfolding FALLBACK_ANALYSIS_literal_def set_concat by (intro UN_I[of "js ''SCORE: 78''"]) simp_all
  moreover have "\<not> isWhiteSpace 83" by (simp add: isWhiteSpace_def)
  ultimately show ?thesis unfolding FALLBACK_ANALYSIS_def by (rule trim_nonempty)
qed

lemma fetchSummary_live:
  "live_reply sessionId res = Some r \<Longrightarrow>
     fetchSummary sessionId res tmsg st =
       (applySummary r (st\<lparr>sp_isLoading := True, sp_error := None, sp_usingFallback := False\<rparr>))
         \<lparr>sp_isLoading := False\<rparr>"
  by (auto simp: live_reply_def fetchSummary_def Let_def trim_Nil
      split: if_splits fetch_result.splits body.splits jsvalue.splits bool.splits)

lemma fetchSummary_failed:
  "live_reply sessionId res = None \<Longrightarrow>
     \<exists>reason. fetchSummary sessionId res tmsg st =
       (applyFallback reason
          (st\<lparr>sp_isLoading := True, sp_error := None, sp_usingFallback := False\<rparr>))
         \<lparr>sp_isLoading := False\<rparr>"
  by (auto simp: live_reply_def fetchSummary_def Let_def trim_Nil
      split: if_splits fetch_result.splits body.splits jsvalue.splits bool.splits)

lemma live_reply_nonempty: "live_reply sessionId res = Some r \<Longrightarrow> r \<noteq> []"
  by (auto simp: live_reply_def split: if_splits fetch_result.splits body.splits jsvalue.splits bool.splits)

text \<open>
  C5. Whenever the match-summary request fails (no stored session id, a transport error,
  a non-success status, an empty reply, or any other outcome that is not a live reply),
  \<open>fetchSummary\<close> ends with the pre-written analysis as the displayed text, with
  \<open>usingFallback\<close> set and with an error message. In every case, failure or not, loading
  is over when it ends and the displayed analysis is not empty.
\<close>
theorem fetchSummary_never_empty:
  "((\<not> truthy_string sessionId \<or> (\<exists>m. res = FetchRejects m) \<or> (\<exists>b. res = Response False b)
      \<or> (\<exists>s. res = Response True (JsonProp (JString s)) \<and> trim s = [])
      \<or> live_reply sessionId res = None)
     \<longrightarrow> sp_analysis (fetchSummary sessionId res tmsg st) = FALLBACK_ANALYSIS
         \<and> sp_usingFallback (fetchSummary sessionId res tmsg st)
         \<and> sp_error (fetchSummary sessionId res tmsg st) \<noteq> None)
   \<and> \<not> sp_isLoading (fetchSummary sessionId res tmsg st)
   \<and> sp_analysis (fetchSummary sessionId res tmsg st) \<noteq> []"
proof (intro conjI impI)
  assume "\<not> truthy_string sessionId \<or> (\<exists>m. res = FetchRejects m) \<or> (\<exists>b. res = Response False b)
      \<or> (\<exists>s. res = Response True (JsonProp (JString s)) \<and> trim s = [])
      \<or> live_reply sessionId res = None"
  then have "live_reply sessionId res = None"
    by (elim disjE) (auto simp: live_reply_def)
  from fetchSummary_failed[OF this, of tmsg st] obtain reason where
    eq: "fetchSummary sessionId res tmsg st =
       (applyFallback reason
          (st\<lparr>sp_isLoading := True, sp_error := None, sp_usingFallback := False\<rparr>))
         \<lparr>sp_isLoading := False\<rparr>" by blast
  show "sp_analysis (fetchSummary sessionId res tmsg st) = FALLBACK_ANALYSIS"
    unfolding eq by (simp add: applyFallback_def applySummary_def)
  show "sp_usingFallback (fetchSummary sessionId res tmsg st)"
    unfolding eq by (simp add: applyFallback_def applySummary_def)
  show "sp_error (fetchSummary sessionId res tmsg st) \<noteq> None"
    unfolding eq by (simp add: applyFallback_def applySummary_def split: option.splits)
next
  show "\<not> sp_isLoading (fetchSummary sessionId res tmsg st)"
    by (simp add: fetchSummary_def Let_def)
next
  show "sp_analysis (fetchSummary sessionId res tmsg st) \<noteq> []"
  proof (cases "live_reply sessionId res")
    case None
    from fetchSummary_failed[OF this, of tmsg st] obtain reason where
      eq: "fetchSummary sessionId res tmsg st =
         (applyFallback reason
            (st\<lparr>sp_isLoading := True, sp_error := None, sp_usingFallback := False\<rparr>))
           \<lparr>sp_isLoading := False\<rparr>" by blast
    show ?thesis unfolding eq
      by (simp add: applyFallback_def applySummary_def FALLBACK_ANALYSIS_nonempty)
  next
    case (Some r)
    then have "r \<noteq> []" by (rule live_reply_nonempty)
    then show ?thesis unfolding fetchSummary_live[OF Some]
      by (simp add: applySummary_def)
  qed
qed

theorem fetchSummary_never_empty_witness:
  "\<not> truthy_string None
   \<and> sp_analysis (fetchSummary None (FetchRejects None) None summary_page_init) = FALLBACK_ANALYSIS
   \<and> sp_usingFallback (fetchSummary None (FetchRejects None) None summary_page_init)
   \<and> trim (js ''  '') = []
   \<and> sp_analysis (fetchSummary (Some (js ''s1'')) (Response True (JsonProp (JString (js ''  ''))))
        None summary_page_init) = FALLBACK_ANALYSIS
   \<and> sp_analysis (fetchSummary (Some (js ''s1'')) (Response False JsonNull)
        None summary_page_init) = FALLBACK_ANALYSIS"
proof -
  have a: "\<not> truthy_string None" by (simp add: truthy_string_def)
  have b: "trim (js ''  '') = []" by (simp add: js_eval)
  note t1 = fetchSummary_never_empty[of None "FetchRejects None" None summary_page_init,
      THEN conjunct1, rule_format]
  note t2 = fetchSummary_never_empty[of "Some (js ''s1'')"
      "Response True (JsonProp (JString (js ''  '')))" None summary_page_init,
      THEN conjunct1, rule_format]
  note t3 = fetchSummary_never_empty[of "Some (js ''s1'')"
      "Response False JsonNull" None summary_page_init,
      THEN conjunct1, rule_format]
  from a t1 have c: "sp_analysis (fetchSummary None (FetchRejects None) None summary_page_init)
      = FALLBACK_ANALYSIS
    \<and> sp_usingFallback (fetchSummary None (FetchRejects None) None summary_page_init)"
    by blast
  from b t2 have d: "sp_analysis (fetchSummary (Some (js ''s1''))
      (Response True (JsonProp (JString (js ''  '')))) None summary_page_init) = FALLBACK_ANALYSIS"
    by blast
  from t3 have e: "sp_analysis (fetchSummary (Some (js ''s1'')) (Response False JsonNull)
        None summary_page_init) = FALLBACK_ANALYSIS"
    by blast
  from a b c d e show ?thesis by blast
qed

section \<open>A reply that cannot be used\<close>

text \<open>
  On the match-summary page a success response whose \<open>reply\<close> is absent, not a string, or
  blank is a failure: the fallback text is substituted and an error is recorded.
\<close>

lemma fetchSummary_unusable_reply:
  assumes "truthy_string sessionId"
    and "case r of JString s \<Rightarrow> trim s = [] | _ \<Rightarrow> True"
  shows "sp_analysis (fetchSummary sessionId (Response True (JsonProp r)) tmsg st) = FALLBACK_ANALYSIS
     \<and> sp_usingFallback (fetchSummary sessionId (Response True (JsonProp r)) tmsg st)
     \<and> sp_error (fetchSummary sessionId (Response True (JsonProp r)) tmsg st) \<noteq> None"
proof -
  have "live_reply sessionId (Response True (JsonProp r)) = None"
    using assms by (auto simp: live_reply_def split: jsvalue.splits)
  from fetchSummary_failed[OF this, of tmsg st] obtain reason where
    eq: "fetchSummary sessionId (Response True (JsonProp r)) tmsg st =
       (applyFallback reason
          (st\<lparr>sp_isLoading := True, sp_error := None, sp_usingFallback := False\<rparr>))
         \<lparr>sp_isLoading := False\<rparr>" by blast
  show ?thesis unfolding eq
    by (simp add: applyFallback_def applySummary_def split: option.splits)
qed

text \<open>
  The interview-summary page does the same for a \<open>reply\<close> that is absent, not a string or
  the empty string.
\<close>

lemma fetchSummary_results_unusable_reply:
  assumes "truthy_string sessionId"
    and "case r of JString s \<Rightarrow> s = [] | _ \<Rightarrow> True"
  shows "fetchSummary_results sessionId (Response True (JsonProp r)) tmsg st =
     (applySummary_results FALLBACK_SUMMARY
        (st\<lparr>rp_isLoading := True,
            rp_error := Some (js ''Invalid summary format from backend.'')\<rparr>))
       \<lparr>rp_isLoading := False\<rparr>"
  using assms by (auto simp: fetchSummary_results_def Let_def split: jsvalue.splits)

text \<open>
  C4. For a success response whose \<open>reply\<close> is a string of white space only, the
  interview-summary page tests \<open>!data.reply\<close> before it trims: the reply passes the test,
  is trimmed to the empty string and stored as the summary, no error is recorded and the
  fallback text is not used. The page then renders none of its boxes. The earlier revision
  of the page behaves alike. The match-summary page trims first and treats the same
  response as a failure.
\<close>

theorem blank_reply_accepted_as_summary:
  "fetchSummary_results (Some (js ''s1'')) (Response True (JsonProp (JString (js ''   ''))))
       None results_page_init
     = \<lparr>rp_summary = Some [], rp_score = None, rp_isLoading = False, rp_error = None\<rparr>
   \<and> render_results
       (fetchSummary_results (Some (js ''s1'')) (Response True (JsonProp (JString (js ''   ''))))
          None results_page_init)
     = \<lparr>shown_strengths = None, shown_improvements = None, shown_overallSummary = None\<rparr>
   \<and> fetchSummary_results_v1 (Some (js ''s1'')) (Response True (JsonProp (JString (js ''   ''))))
       None \<lparr>rv_summary = None, rv_isLoading = True, rv_error = None\<rparr>
     = \<lparr>rv_summary = Some [], rv_isLoading = False, rv_error = None\<rparr>
   \<and> sp_usingFallback
       (fetchSummary (Some (js ''s1'')) (Response True (JsonProp (JString (js ''   ''))))
          None summary_page_init)"
proof -
  have t: "trim (js ''   '') = []" by (simp add: js_eval)
  have r: "remove_bold (js ''   '') = js ''   ''" by (simp add: js_def)
  have p: "parse_score [] = None" by (simp add: parse_score_def score_regex_here_def js_def)
  have a: "fetchSummary_results (Some (js ''s1''))
       (Response True (JsonProp (JString (js ''   '')))) None results_page_init
     = \<lparr>rp_summary = Some [], rp_score = None, rp_isLoading = False, rp_error = None\<rparr>"
    by (simp add: fetchSummary_results_def applySummary_results_def results_page_init_def
        truthy_string_def Let_def r t p) (simp add: js_def)
  have b: "render_results
       \<lparr>rp_summary = Some [], rp_score = None, rp_isLoading = False, rp_error = None\<rparr>
     = \<lparr>shown_strengths = None, shown_improvements = None, shown_overallSummary = None\<rparr>"
    by (simp add: render_results_def parse_sections_def shown_def truthy_string_def)
  have c: "fetchSummary_results_v1 (Some (js ''s1''))
       (Response True (JsonProp (JString (js ''   ''))))
       None \<lparr>rv_summary = None, rv_isLoading = True, rv_error = None\<rparr>
     = \<lparr>rv_summary = Some [], rv_isLoading = False, rv_error = None\<rparr>"
    by (simp add: fetchSummary_results_v1_def truthy_string_def Let_def t) (simp add: js_def)
  have d: "sp_usingFallback
       (fetchSummary (Some (js ''s1'')) (Response True (JsonProp (JString (js ''   ''))))
          None summary_page_init)"
    by (simp add: fetchSummary_def applyFallback_def applySummary_def truthy_string_def Let_def t)
  from a b c d show ?thesis by simp
qed

section \<open>What the upload page requires\<close>

text \<open>
  C6, as stated, fails: a submission without a CV file is rejected with the error
  "Please upload your CV first." and sends nothing, although the job description and the
  company details are filled in.
\<close>

theorem handleSubmit_rejects_missing_cv:
  "handleSubmit True
     \<lparr>cvFile = None, jobDescription = js ''Backend engineer'', companyDetails = js ''ACME'',
      up_isLoading = False, up_error = None\<rparr>
   = (\<lparr>cvFile = None, jobDescription = js ''Backend engineer'', companyDetails = js ''ACME'',
       up_isLoading = False, up_error = Some (js ''Please upload your CV first.'')\<rparr>,
      None)"
  by (simp add: handleSubmit_def)

text \<open>
  C6, amended. Only the company details are optional. \<open>handleSubmit\<close> sends the request
  exactly when a CV file is selected and the job description is not blank; it then sends
  the file, the job description and the company details as they are, whatever the company
  details are, the empty text included. Without a CV file it sets the error
  "Please upload your CV first." and sends nothing; with a CV file and a blank job
  description it sets the error "Please paste the job description." and sends nothing.
  In both cases nothing else in the state changes.
\<close>

theorem handleSubmit_requires_cv_and_job:
  "(snd (handleSubmit succeeds st) \<noteq> None
      \<longleftrightarrow> cvFile st \<noteq> None \<and> trim (jobDescription st) \<noteq> [])
   \<and> (\<forall>f. cvFile st = Some f \<and> trim (jobDescription st) \<noteq> [] \<longrightarrow>
         snd (handleSubmit succeeds st)
           = Some \<lparr>cv = f, job_description = jobDescription st,
                   company_info = companyDetails st\<rparr>)
   \<and> (snd (handleSubmit succeeds st) = None \<longrightarrow> up_error (fst (handleSubmit succeeds st)) \<noteq> None)
   \<and> (cvFile st = None \<longrightarrow>
         handleSubmit succeeds st
           = (st\<lparr>up_error := Some (js ''Please upload your CV first.'')\<rparr>, None))
   \<and> (cvFile st \<noteq> None \<and> trim (jobDescription st) = [] \<longrightarrow>
         handleSubmit succeeds st
           = (st\<lparr>up_error := Some (js ''Please paste the job description.'')\<rparr>, None))"
  by (auto simp: handleSubmit_def Let_def split: option.splits)

theorem handleSubmit_requires_cv_and_job_witness:
  "trim (js ''Backend engineer'') \<noteq> []
   \<and> snd (handleSubmit True
       \<lparr>cvFile = Some (UploadFile (js ''cv.pdf'')), jobDescription = js ''Backend engineer'',
        companyDetails = [], up_isLoading = False, up_error = None\<rparr>)
     = Some \<lparr>cv = UploadFile (js ''cv.pdf''), job_description = js ''Backend engineer'',
             company_info = []\<rparr>
   \<and> trim (js ''  '') = []
   \<and> handleSubmit True
       \<lparr>cvFile = Some (UploadFile (js ''cv.pdf'')), jobDescription = js ''  '',
        companyDetails = js ''ACME'', up_isLoading = False, up_error = None\<rparr>
     = (\<lparr>cvFile = Some (UploadFile (js ''cv.pdf'')), jobDescription = js ''  '',
         companyDetails = js ''ACME'', up_isLoading = False,
         up_error = Some (js ''Please paste the job description.'')\<rparr>, None)
   \<and> handleSubmit True
       \<lparr>cvFile = None, jobDescription = js ''  '',
        companyDetails = js ''ACME'', up_isLoading = False, up_error = None\<rparr>
     = (\<lparr>cvFile = None, jobDescription = js ''  '',
         companyDetails = js ''ACME'', up_isLoading = False,
         up_error = Some (js ''Please upload your CV first.'')\<rparr>, None)"
proof -
  have t1: "trim (js ''Backend engineer'') \<noteq> []" by (simp add: js_eval)
  have t2: "trim (js ''  '') = []" by (simp add: js_eval)
  note a = handleSubmit_requires_cv_and_job[of True
      "\<lparr>cvFile = Some (UploadFile (js ''cv.pdf'')), jobDescription = js ''Backend engineer'',
        companyDetails = [], up_isLoading = False, up_error = None\<rparr>"]
  note b = handleSubmit_requires_cv_and_job[of True
      "\<lparr>cvFile = Some (UploadFile (js ''cv.pdf'')), jobDescription = js ''  '',
        companyDetails = js ''ACME'', up_isLoading = False, up_error = None\<rparr>"]
  note n = handleSubmit_requires_cv_and_job[of True
      "\<lparr>cvFile = None, jobDescription = js ''  '',
        companyDetails = js ''ACME'', up_isLoading = False, up_error = None\<rparr>"]
  from a t1 have c: "snd (handleSubmit True
       \<lparr>cvFile = Some (UploadFile (js ''cv.pdf'')), jobDescription = js ''Backend engineer'',
        companyDetails = [], up_isLoading = False, up_error = None\<rparr>)
     = Some \<lparr>cv = UploadFile (js ''cv.pdf''), job_description = js ''Backend engineer'',
             company_info = []\<rparr>"
    by simp
  from b t2 have d: "handleSubmit True
       \<lparr>cvFile = Some (UploadFile (js ''cv.pdf'')), jobDescription = js ''  '',
        companyDetails = js ''ACME'', up_isLoading = False, up_error = None\<rparr>
     = (\<lparr>cvFile = Some (UploadFile (js ''cv.pdf'')), jobDescription = js ''  '',
         companyDetails = js ''ACME'', up_isLoading = False,
         up_error = Some (js ''Please paste the job description.'')\<rparr>, None)"
    by simp
  from n have e: "handleSubmit True
       \<lparr>cvFile = None, jobDescription = js ''  '',
        companyDetails = js ''ACME'', up_isLoading = False, up_error = None\<rparr>
     = (\<lparr>cvFile = None, jobDescription = js ''  '',
         companyDetails = js ''ACME'', up_isLoading = False,
         up_error = Some (js ''Please upload your CV first.'')\<rparr>, None)"
    by simp
  from t1 t2 c d e show ?thesis by blast
qed

section \<open>The body of the interview-config request\<close>

lemma indexOf_nonneg_or_absent: "indexOf xs x = - 1 \<or> 0 \<le> indexOf xs x"
  by (induction xs) (auto simp: Let_def)

lemma indexOf_nth: "distinct xs \<Longrightarrow> k < length xs \<Longrightarrow> indexOf xs (xs ! k) = int k"
proof (induction xs arbitrary: k)
  case Nil
  then show ?case by simp
next
  case (Cons a xs)
  show ?case
  proof (cases k)
    case 0
    then show ?thesis by simp
  next
    case (Suc j)
    with Cons.prems have j: "j < length xs" and d: "distinct xs" and na: "a \<noteq> xs ! j"
      by auto
    from Cons.IH[OF d j] have "indexOf xs (xs ! j) = int j" .
    with Suc na show ?thesis by (simp add: Let_def)
  qed
qed

lemma onSelect_picked:
  assumes "picked focusOptions (focus st)"
    "picked interviewerBehaviorOptions (interviewerBehavior st)"
    "picked difficultyOptions (difficulty st)"
  shows "picked focusOptions (focus (onSelect st c))
     \<and> picked interviewerBehaviorOptions (interviewerBehavior (onSelect st c))
     \<and> picked difficultyOptions (difficulty (onSelect st c))"
  using assms by (cases c) (auto simp: picked_def)

lemma clicks_picked:
  "picked focusOptions (focus (foldl onSelect setup_page_init clicks))
   \<and> picked interviewerBehaviorOptions (interviewerBehavior (foldl onSelect setup_page_init clicks))
   \<and> picked difficultyOptions (difficulty (foldl onSelect setup_page_init clicks))"
proof (induction clicks rule: rev_induct)
  case Nil
  show ?case by (simp add: picked_def setup_page_init_def)
next
  case (snoc c clicks)
  then show ?case using onSelect_picked[of "foldl onSelect setup_page_init clicks" c] by simp
qed

lemma options_facts:
  "distinct focusOptions" "distinct interviewerBehaviorOptions" "distinct difficultyOptions"
  "length focusOptions = 3" "length interviewerBehaviorOptions = 3" "length difficultyOptions = 3"
  "[] \<notin> set focusOptions" "[] \<notin> set interviewerBehaviorOptions" "[] \<notin> set difficultyOptions"
  by (simp_all add: focusOptions_def interviewerBehaviorOptions_def difficultyOptions_def js_def)

lemma picked_index:
  assumes "picked opts (Some x)" "distinct opts" "length opts = 3"
  shows "indexOf opts x + 1 \<in> {1, 2, 3} \<and> opts ! nat (indexOf opts x + 1 - 1) = x"
proof -
  from assms(1) obtain k where k: "k < length opts" "x = opts ! k"
    by (auto simp: picked_def)
  from indexOf_nth[OF assms(2) k(1)] k(2) have i: "indexOf opts x = int k" by simp
  from k(1) assms(3) have "k = 0 \<or> k = 1 \<or> k = 2" by auto
  with i k(2) show ?thesis by auto
qed

lemma picked_nonempty:
  assumes "picked opts (Some x)" "[] \<notin> set opts"
  shows "x \<noteq> []"
  using assms by (auto simp: picked_def) (metis nth_mem)

lemma handleStartInterview_sends:
  assumes "interviewerBehavior st = Some b" "difficulty st = Some d" "focus st = Some f"
    "b \<noteq> []" "d \<noteq> []" "f \<noteq> []" "sessionId = Some sid" "sid \<noteq> []"
  shows "fst (snd (handleStartInterview sessionId res tmsg st))
     = Some \<lparr>cfg_session = sid,
             cfg_body = [indexOf focusOptions f + 1,
                         indexOf interviewerBehaviorOptions b + 1,
                         indexOf difficultyOptions d + 1]\<rparr>"
  using assms
  by (simp add: handleStartInterview_def send_config_def Let_def
      split: fetch_result.splits body.splits)

lemma handleStartInterview_silent:
  assumes "interviewerBehavior st = None \<or> difficulty st = None \<or> focus st = None
     \<or> \<not> truthy_string sessionId"
  shows "fst (snd (handleStartInterview sessionId res tmsg st)) = None"
  using assms
  by (auto simp: handleStartInterview_def truthy_string_def Let_def split: option.splits)

text \<open>
  C7. Take the set-up page after any sequence of clicks on its option buttons, and call
  \<open>handleStartInterview\<close>. A request is sent exactly when each of the three groups has a
  selection and a session id is stored. Its body is then the list [focus, interviewer
  behaviour, difficulty], in this order, each entry being 1, 2 or 3: the position,
  counted from 1, of the selected option in its group.
\<close>

theorem handleStartInterview_body:
  "(fst (snd (handleStartInterview sessionId res tmsg (foldl onSelect setup_page_init clicks)))
        \<noteq> None
      \<longleftrightarrow> focus (foldl onSelect setup_page_init clicks) \<noteq> None
          \<and> interviewerBehavior (foldl onSelect setup_page_init clicks) \<noteq> None
          \<and> difficulty (foldl onSelect setup_page_init clicks) \<noteq> None
          \<and> truthy_string sessionId)
   \<and> (\<forall>req.
        fst (snd (handleStartInterview sessionId res tmsg (foldl onSelect setup_page_init clicks)))
          = Some req
        \<longrightarrow> (\<exists>f b d. cfg_body req = [f, b, d]
               \<and> f \<in> {1, 2, 3} \<and> b \<in> {1, 2, 3} \<and> d \<in> {1, 2, 3}
               \<and> focus (foldl onSelect setup_page_init clicks)
                   = Some (focusOptions ! nat (f - 1))
               \<and> interviewerBehavior (foldl onSelect setup_page_init clicks)
                   = Some (interviewerBehaviorOptions ! nat (b - 1))
               \<and> difficulty (foldl onSelect setup_page_init clicks)
                   = Some (difficultyOptions ! nat (d - 1)))
            \<and> sessionId = Some (cfg_session req))"
proof -
  define st where "st = foldl onSelect setup_page_init clicks"
  have inv: "picked focusOptions (focus st)"
    "picked interviewerBehaviorOptions (interviewerBehavior st)"
    "picked difficultyOptions (difficulty st)"
    unfolding st_def using clicks_picked[of clicks] by blast+
  show ?thesis
  proof (cases "focus st \<noteq> None \<and> interviewerBehavior st \<noteq> None \<and> difficulty st \<noteq> None
      \<and> truthy_string sessionId")
    case False
    then have "interviewerBehavior st = None \<or> difficulty st = None \<or> focus st = None
       \<or> \<not> truthy_string sessionId" by blast
    from handleStartInterview_silent[OF this, of res tmsg] False
    show ?thesis unfolding st_def[symmetric] by simp
  next
    case True
    then obtain f b d sid where sel: "focus st = Some f" "interviewerBehavior st = Some b"
      "difficulty st = Some d" and sid: "sessionId = Some sid" "sid \<noteq> []"
      by (auto simp: truthy_string_def split: option.splits)
    have ne: "f \<noteq> []" "b \<noteq> []" "d \<noteq> []"
      using inv sel options_facts(7-9) picked_nonempty by metis+
    have fi: "indexOf focusOptions f + 1 \<in> {1, 2, 3}
        \<and> focusOptions ! nat (indexOf focusOptions f + 1 - 1) = f"
      using inv(1) sel(1) options_facts(1,4) picked_index by metis
    have bi: "indexOf interviewerBehaviorOptions b + 1 \<in> {1, 2, 3}
        \<and> interviewerBehaviorOptions ! nat (indexOf interviewerBehaviorOptions b + 1 - 1) = b"
      using inv(2) sel(2) options_facts(2,5) picked_index by metis
    have di: "indexOf difficultyOptions d + 1 \<in> {1, 2, 3}
        \<and> difficultyOptions ! nat (indexOf difficultyOptions d + 1 - 1) = d"
      using inv(3) sel(3) options_facts(3,6) picked_index by metis
    have out: "fst (snd (handleStartInterview sessionId res tmsg st))
       = Some \<lparr>cfg_session = sid,
               cfg_body = [indexOf focusOptions f + 1,
                           indexOf interviewerBehaviorOptions b + 1,
                           indexOf difficultyOptions d + 1]\<rparr>"
      using sel(2,3,1) ne(2,3,1) sid by (rule handleStartInterview_sends)
    show ?thesis
      unfolding st_def[symmetric] out using True sel sid fi bi di by auto
  qed
qed

theorem handleStartInterview_body_witness:
  "focus (foldl onSelect setup_page_init [ClickFocus 2, ClickBehavior 0, ClickDifficulty 1])
     = Some (js ''More technical'')
   \<and> truthy_string (Some (js ''s1''))
   \<and> fst (snd (handleStartInterview (Some (js ''s1'')) (Response True JsonNull) None
        (foldl onSelect setup_page_init [ClickFocus 2, ClickBehavior 0, ClickDifficulty 1])))
     = Some \<lparr>cfg_session = js ''s1'', cfg_body = [3, 1, 2]\<rparr>
   \<and> fst (snd (handleStartInterview (Some (js ''s1'')) (Response True JsonNull) None
        (foldl onSelect setup_page_init [ClickFocus 2, ClickBehavior 0]))) = None"
proof -
  have st: "foldl onSelect setup_page_init [ClickFocus 2, ClickBehavior 0, ClickDifficulty 1]
     = \<lparr>interviewerBehavior = Some (js ''Supportive & coaching''),
        difficulty = Some (js ''Standard role-level''),
        focus = Some (js ''More technical''), su_error = None, isSubmitting = False\<rparr>"
    by (simp add: setup_page_init_def focusOptions_def interviewerBehaviorOptions_def
        difficultyOptions_def)
  have st2: "difficulty (foldl onSelect setup_page_init [ClickFocus 2, ClickBehavior 0]) = None"
    by (simp add: setup_page_init_def focusOptions_def interviewerBehaviorOptions_def)
  have s: "truthy_string (Some (js ''s1''))" by (simp add: truthy_string_def js_def)
  note t = handleStartInterview_body[of "Some (js ''s1'')" "Response True JsonNull" None
      "[ClickFocus 2, ClickBehavior 0, ClickDifficulty 1]"]
  from t st s obtain req where req:
    "fst (snd (handleStartInterview (Some (js ''s1'')) (Response True JsonNull) None
        (foldl onSelect setup_page_init [ClickFocus 2, ClickBehavior 0, ClickDifficulty 1])))
      = Some req"
    by auto
  with t obtain f b d where body: "cfg_body req = [f, b, d]" "f \<in> {1, 2, 3}" "b \<in> {1, 2, 3}"
    "d \<in> {1, 2, 3}"
    "focus (foldl onSelect setup_page_init [ClickFocus 2, ClickBehavior 0, ClickDifficulty 1])
       = Some (focusOptions ! nat (f - 1))"
    "interviewerBehavior
       (foldl onSelect setup_page_init [ClickFocus 2, ClickBehavior 0, ClickDifficulty 1])
       = Some (interviewerBehaviorOptions ! nat (b - 1))"
    "difficulty (foldl onSelect setup_page_init [ClickFocus 2, ClickBehavior 0, ClickDifficulty 1])
       = Some (difficultyOptions ! nat (d - 1))"
    and sess: "Some (js ''s1'') = Some (cfg_session req)"
    by blast
  from body(2,5) have f: "f = 3"
    unfolding st by (auto simp: focusOptions_def js_def)
  from body(3,6) have b: "b = 1"
    unfolding st by (auto simp: interviewerBehaviorOptions_def js_def)
  from body(4,7) have d: "d = 2"
    unfolding st by (auto simp: difficultyOptions_def js_def)
  from body(1) f b d sess have "req = \<lparr>cfg_session = js ''s1'', cfg_body = [3, 1, 2]\<rparr>"
    by (cases req) simp
  with req have r1: "fst (snd (handleStartInterview (Some (js ''s1'')) (Response True JsonNull) None
        (foldl onSelect setup_page_init [ClickFocus 2, ClickBehavior 0, ClickDifficulty 1])))
     = Some \<lparr>cfg_session = js ''s1'', cfg_body = [3, 1, 2]\<rparr>" by simp
  have r2: "fst (snd (handleStartInterview (Some (js ''s1'')) (Response True JsonNull) None
        (foldl onSelect setup_page_init [ClickFocus 2, ClickBehavior 0]))) = None"
    using handleStartInterview_body[of "Some (js ''s1'')" "Response True JsonNull" None
      "[ClickFocus 2, ClickBehavior 0]"] st2 by blast
  from st s r1 r2 show ?thesis by simp
qed

section \<open>The question index of the interview\<close>

lemma questionEffect_index: "questionIndex (questionEffect e st) = questionIndex st"
  by (auto simp: questionEffect_def useMockQuestion_def Let_def
      split: fetch_result.splits body.splits jsvalue.splits)

lemma questionEffect_ref: "processingUploadRef (questionEffect e st) = processingUploadRef st"
  by (auto simp: questionEffect_def useMockQuestion_def Let_def
      split: fetch_result.splits body.splits jsvalue.splits)

lemma questionEffect_finished:
  "isFinished (questionEffect e st) = (isFinished st \<or> questionIndex st > TOTAL_QUESTIONS)"
  by (auto simp: questionEffect_def useMockQuestion_def Let_def
      split: fetch_result.splits body.splits jsvalue.splits)

lemma rerender_index: "questionIndex (rerender e before st) = questionIndex st"
  by (simp add: rerender_def questionEffect_index)

lemma rerender_ref: "processingUploadRef (rerender e before st) = processingUploadRef st"
  by (simp add: rerender_def questionEffect_ref)

lemma rerender_finished:
  "isFinished (rerender e before st) =
     (isFinished st \<or> (questionIndex st \<noteq> questionIndex before \<and> questionIndex st > TOTAL_QUESTIONS))"
  by (simp add: rerender_def questionEffect_finished)

lemma upload_catch_fields:
  "questionIndex (upload_catch msg st) = questionIndex st"
  "\<not> processingUploadRef (upload_catch msg st)"
  "isFinished (upload_catch msg st) = isFinished st"
  by (simp_all add: upload_catch_def upload_finally_def)

lemma uploadAnswer_end_ref: "\<not> processingUploadRef (uploadAnswer_end res tmsg req st)"
  by (auto simp: uploadAnswer_end_def upload_catch_fields upload_finally_def Let_def
      split: fetch_result.splits body.splits)

lemma uploadAnswer_end_finished: "isFinished (uploadAnswer_end res tmsg req st) = isFinished st"
  by (auto simp: uploadAnswer_end_def upload_catch_fields upload_finally_def Let_def
      split: fetch_result.splits body.splits)

lemma uploadAnswer_end_index:
  "questionIndex (uploadAnswer_end res tmsg req st) =
     (case res of Response True (JsonProp r) \<Rightarrow> questionIndex st + 1 | _ \<Rightarrow> questionIndex st)"
  by (auto simp: uploadAnswer_end_def upload_catch_fields upload_finally_def Let_def
      split: fetch_result.splits body.splits bool.splits)

lemma uploadAnswer_ignored: "processingUploadRef st \<Longrightarrow> uploadAnswer e a res st = st"
  by (simp add: uploadAnswer_def uploadAnswer_begin_def)

lemma uploadAnswer_begin_finished:
  "isFinished (fst (uploadAnswer_begin k sid a st)) = isFinished st"
  by (auto simp: uploadAnswer_begin_def upload_catch_fields Let_def split: option.splits)

lemma uploadAnswer_finished: "isFinished (uploadAnswer e a res st) = isFinished st"
proof (cases "uploadAnswer_begin (env_closure_index e) (env_session e) a st")
  case (Pair st1 r)
  then have f: "isFinished st1 = isFinished st"
    using uploadAnswer_begin_finished[of "env_closure_index e" "env_session e" a st] by simp
  show ?thesis
    using Pair f by (cases r) (simp_all add: uploadAnswer_def uploadAnswer_end_finished)
qed

lemma uploadAnswer_ref:
  "\<not> processingUploadRef st \<Longrightarrow> \<not> processingUploadRef (uploadAnswer e a res st)"
  by (auto simp: uploadAnswer_def uploadAnswer_begin_def upload_catch_fields
      uploadAnswer_end_ref Let_def split: option.splits)

lemma uploadAnswer_index:
  "\<not> processingUploadRef st \<Longrightarrow>
     questionIndex (uploadAnswer e a res st) =
       questionIndex st + (if succeeded \<lparr>sub_env = e, sub_audio = a, sub_response = res\<rparr> then 1 else 0)"
  by (auto simp: uploadAnswer_def uploadAnswer_begin_def upload_catch_fields
      uploadAnswer_end_index succeeded_def truthy_string_def Let_def
      split: option.splits fetch_result.splits body.splits bool.splits)

lemma submitAnswer_fields:
  assumes "\<not> processingUploadRef st"
  shows "questionIndex (submitAnswer st sub) = questionIndex st + (if succeeded sub then 1 else 0)"
    and "\<not> processingUploadRef (submitAnswer st sub)"
    and "isFinished (submitAnswer st sub) =
           (isFinished st \<or> (succeeded sub \<and> questionIndex st + 1 > TOTAL_QUESTIONS))"
proof -
  have sub: "\<lparr>sub_env = sub_env sub, sub_audio = sub_audio sub, sub_response = sub_response sub\<rparr> = sub"
    by simp
  show i: "questionIndex (submitAnswer st sub) = questionIndex st + (if succeeded sub then 1 else 0)"
    using uploadAnswer_index[OF assms, of "sub_env sub" "sub_audio sub" "sub_response sub"]
    by (simp add: submitAnswer_def rerender_index sub)
  show "\<not> processingUploadRef (submitAnswer st sub)"
    using uploadAnswer_ref[OF assms] by (simp add: submitAnswer_def rerender_ref)
  show "isFinished (submitAnswer st sub) =
           (isFinished st \<or> (succeeded sub \<and> questionIndex st + 1 > TOTAL_QUESTIONS))"
    using uploadAnswer_index[OF assms, of "sub_env sub" "sub_audio sub" "sub_response sub"]
    by (simp add: submitAnswer_def rerender_finished uploadAnswer_finished sub)
qed

lemma mounted_fields:
  "questionIndex (questionEffect e interview_page_init) = 1"
  "\<not> processingUploadRef (questionEffect e interview_page_init)"
  "\<not> isFinished (questionEffect e interview_page_init)"
  by (simp_all add: questionEffect_index questionEffect_ref questionEffect_finished
      interview_page_init_def TOTAL_QUESTIONS_def)

lemma succeeded_run:
  assumes "\<forall>sub\<in>set subs. succeeded sub"
  shows "questionIndex (foldl submitAnswer (questionEffect e interview_page_init) subs)
           = 1 + int (length subs)
       \<and> \<not> processingUploadRef (foldl submitAnswer (questionEffect e interview_page_init) subs)
       \<and> (isFinished (foldl submitAnswer (questionEffect e interview_page_init) subs)
            \<longleftrightarrow> TOTAL_QUESTIONS \<le> int (length subs))"
  using assms
proof (induction subs rule: rev_induct)
  case Nil
  show ?case by (simp add: mounted_fields TOTAL_QUESTIONS_def)
next
  case (snoc sub subs)
  define st where "st = foldl submitAnswer (questionEffect e interview_page_init) subs"
  from snoc have ih: "questionIndex st = 1 + int (length subs)" "\<not> processingUploadRef st"
    "isFinished st \<longleftrightarrow> TOTAL_QUESTIONS \<le> int (length subs)" and s: "succeeded sub"
    unfolding st_def by auto
  from submitAnswer_fields[OF ih(2), of sub] s ih(1,3)
  have "questionIndex (submitAnswer st sub) = 1 + int (length (subs @ [sub]))"
    "\<not> processingUploadRef (submitAnswer st sub)"
    "isFinished (submitAnswer st sub) \<longleftrightarrow> TOTAL_QUESTIONS \<le> int (length (subs @ [sub]))"
    by (auto simp: TOTAL_QUESTIONS_def)
  then show ?case by (simp add: st_def)
qed

text \<open>
  C2. Start from the mounted interview page (question index 1, not finished) and make any
  number of successful answer submissions, one after the other. After \<open>k\<close> of them the
  question index is \<open>1 + k\<close>, and the interview is finished exactly when \<open>k\<close> has reached
  \<open>TOTAL_QUESTIONS = 3\<close>: not after one or two submissions, and already after the third.
\<close>

theorem finished_after_total_questions:
  assumes "\<forall>sub\<in>set subs. succeeded sub"
  shows "TOTAL_QUESTIONS = 3
       \<and> questionIndex (foldl submitAnswer (questionEffect e interview_page_init) subs)
           = 1 + int (length subs)
       \<and> (isFinished (foldl submitAnswer (questionEffect e interview_page_init) subs)
            \<longleftrightarrow> TOTAL_QUESTIONS \<le> int (length subs))"
  using succeeded_run[OF assms, of e] by (simp add: TOTAL_QUESTIONS_def)

theorem finished_after_total_questions_witness:
  "succeeded \<lparr>sub_env = \<lparr>env_session = Some (js ''s1''),
                        env_question = Response True (JsonProp (JString (js ''Q''))),
                        env_tmsg = None, env_closure_index = 1\<rparr>,
              sub_audio = Some (Blob 5),
              sub_response = Response True (JsonProp (JString (js ''Next'')))\<rparr>
   \<and> succeeded \<lparr>sub_env = \<lparr>env_session = None, env_question = FetchRejects None,
                        env_tmsg = None, env_closure_index = 1\<rparr>,
              sub_audio = None, sub_response = FetchRejects None\<rparr>
   \<and> isFinished (foldl submitAnswer
        (questionEffect \<lparr>env_session = None, env_question = FetchRejects None, env_tmsg = None, env_closure_index = 1\<rparr>
           interview_page_init)
        [\<lparr>sub_env = \<lparr>env_session = None, env_question = FetchRejects None, env_tmsg = None, env_closure_index = 1\<rparr>,
          sub_audio = None, sub_response = FetchRejects None\<rparr>,
         \<lparr>sub_env = \<lparr>env_session = Some (js ''s1''),
                      env_question = Response True (JsonProp (JString (js ''Q''))),
                      env_tmsg = None, env_closure_index = 1\<rparr>,
          sub_audio = Some (Blob 5),
          sub_response = Response True (JsonProp (JString (js ''Next'')))\<rparr>,
         \<lparr>sub_env = \<lparr>env_session = Some (js ''s1''),
                      env_question = Response True (JsonProp (JString (js ''Q''))),
                      env_tmsg = None, env_closure_index = 1\<rparr>,
          sub_audio = Some (Blob 5),
          sub_response = Response True (JsonProp (JString (js ''Next'')))\<rparr>])
   \<and> \<not> isFinished (foldl submitAnswer
        (questionEffect \<lparr>env_session = None, env_question = FetchRejects None, env_tmsg = None, env_closure_index = 1\<rparr>
           interview_page_init)
        [\<lparr>sub_env = \<lparr>env_session = None, env_question = FetchRejects None, env_tmsg = None, env_closure_index = 1\<rparr>,
          sub_audio = None, sub_response = FetchRejects None\<rparr>,
         \<lparr>sub_env = \<lparr>env_session = Some (js ''s1''),
                      env_question = Response True (JsonProp (JString (js ''Q''))),
                      env_tmsg = None, env_closure_index = 1\<rparr>,
          sub_audio = Some (Blob 5),
          sub_response = Response True (JsonProp (JString (js ''Next'')))\<rparr>])"
proof -
  define live where "live = \<lparr>sub_env = \<lparr>env_session = Some (js ''s1''),
                        env_question = Response True (JsonProp (JString (js ''Q''))),
                        env_tmsg = None, env_closure_index = 1\<rparr>,
              sub_audio = Some (Blob 5),
              sub_response = Response True (JsonProp (JString (js ''Next'')))\<rparr>"
  define practice where "practice = \<lparr>sub_env = \<lparr>env_session = None,
                        env_question = FetchRejects None, env_tmsg = None, env_closure_index = 1\<rparr>,
              sub_audio = None, sub_response = FetchRejects None\<rparr>"
  define e where "e = \<lparr>env_session = None, env_question = FetchRejects None, env_tmsg = None, env_closure_index = 1\<rparr>"
  have l: "succeeded live"
    by (simp add: live_def succeeded_def truthy_string_def js_def)
  have p: "succeeded practice"
    by (simp add: practice_def succeeded_def truthy_string_def)
  have three: "\<forall>sub\<in>set [practice, live, live]. succeeded sub" using l p by simp
  have two: "\<forall>sub\<in>set [practice, live]. succeeded sub" using l p by simp
  have a: "isFinished (foldl submitAnswer (questionEffect e interview_page_init)
             [practice, live, live])"
    using finished_after_total_questions[OF three, of e] by simp
  have b: "\<not> isFinished (foldl submitAnswer (questionEffect e interview_page_init)
             [practice, live])"
    using finished_after_total_questions[OF two, of e] by simp
  from l p a b show ?thesis unfolding live_def practice_def e_def by blast
qed

text \<open>
  C3, as stated, fails: with a stored session id, a submission without audio is rejected.
  The page shows "No audio captured for this answer. Please re-record.", the question
  index stays at 1, and three such submissions do not finish the interview.
\<close>

theorem empty_answer_is_rejected:
  "questionIndex (submitAnswer interview_page_init
      \<lparr>sub_env = \<lparr>env_session = Some (js ''s1''),
                  env_question = Response True (JsonProp (JString (js ''Q''))),
                  env_tmsg = None, env_closure_index = 1\<rparr>,
       sub_audio = None,
       sub_response = Response True (JsonProp (JString (js ''Next'')))\<rparr>) = 1
   \<and> ip_error (submitAnswer interview_page_init
      \<lparr>sub_env = \<lparr>env_session = Some (js ''s1''),
                  env_question = Response True (JsonProp (JString (js ''Q''))),
                  env_tmsg = None, env_closure_index = 1\<rparr>,
       sub_audio = None,
       sub_response = Response True (JsonProp (JString (js ''Next'')))\<rparr>)
     = Some (js ''No audio captured for this answer. Please re-record.'')
   \<and> \<not> isFinished (foldl submitAnswer interview_page_init
      (replicate 3
        \<lparr>sub_env = \<lparr>env_session = Some (js ''s1''),
                    env_question = Response True (JsonProp (JString (js ''Q''))),
                    env_tmsg = None, env_closure_index = 1\<rparr>,
         sub_audio = None,
         sub_response = Response True (JsonProp (JString (js ''Next'')))\<rparr>))"
proof -
  define sub where "sub = \<lparr>sub_env = \<lparr>env_session = Some (js ''s1''),
                  env_question = Response True (JsonProp (JString (js ''Q''))),
                  env_tmsg = None, env_closure_index = 1\<rparr>,
       sub_audio = None,
       sub_response = Response True (JsonProp (JString (js ''Next'')))\<rparr>"
  define st where "st = interview_page_init
      \<lparr>ip_error := Some (js ''No audio captured for this answer. Please re-record.'')\<rparr>"
  have s1: "js ''s1'' \<noteq> []" by (simp add: js_def)
  have a: "submitAnswer interview_page_init sub = st"
    using s1 by (simp add: submitAnswer_def uploadAnswer_def uploadAnswer_begin_def
        upload_catch_def upload_finally_def rerender_def sub_def st_def interview_page_init_def)
  have b: "submitAnswer st sub = st"
    using s1 by (simp add: submitAnswer_def uploadAnswer_def uploadAnswer_begin_def
        upload_catch_def upload_finally_def rerender_def sub_def st_def interview_page_init_def)
  have c: "foldl submitAnswer interview_page_init (replicate 3 sub) = st"
    using a b by (simp add: numeral_3_eq_3)
  have "questionIndex st = 1" "\<not> isFinished st"
    "ip_error st = Some (js ''No audio captured for this answer. Please re-record.'')"
    by (simp_all add: st_def interview_page_init_def)
  with a c show ?thesis unfolding sub_def by simp
qed

text \<open>
  C3, amended. No submission moves the question index backward, and each advances it by
  at most one: the index advances by exactly one when the submission succeeds and no
  upload is being processed when it is made, and stays where it is otherwise. A
  submission succeeds in practice mode (no stored session id), whatever the audio, or with
  a stored session id when non-empty audio was uploaded and the response was a readable
  success. With a stored session id and no upload being processed, a submission whose
  audio is missing or empty is rejected: the error
  "No audio captured for this answer. Please re-record." is set, no request is sent and
  the index does not move. While an upload is being processed a submission is ignored:
  the page state stays as it is and no request is sent. A request is sent exactly when
  no upload is being processed, a session id is stored and the audio is not empty.
\<close>

theorem submitAnswer_index:
  "questionIndex (submitAnswer st sub)
     = questionIndex st + (if succeeded sub \<and> \<not> processingUploadRef st then 1 else 0)
   \<and> questionIndex st \<le> questionIndex (submitAnswer st sub)
   \<and> (truthy_string (env_session (sub_env sub)) \<and> \<not> processingUploadRef st
        \<and> (case sub_audio sub of None \<Rightarrow> True | Some a \<Rightarrow> blob_size a = 0)
      \<longrightarrow> questionIndex (submitAnswer st sub) = questionIndex st
          \<and> ip_error (submitAnswer st sub)
              = Some (js ''No audio captured for this answer. Please re-record.'')
          \<and> submitted_request st sub = None)
   \<and> (processingUploadRef st
      \<longrightarrow> submitAnswer st sub = st \<and> submitted_request st sub = None)
   \<and> (submitted_request st sub \<noteq> None
      \<longleftrightarrow> \<not> processingUploadRef st \<and> truthy_string (env_session (sub_env sub))
          \<and> (case sub_audio sub of None \<Rightarrow> False | Some a \<Rightarrow> blob_size a \<noteq> 0))"
proof -
  have idx: "questionIndex (submitAnswer st sub)
     = questionIndex st + (if succeeded sub \<and> \<not> processingUploadRef st then 1 else 0)"
  proof (cases "processingUploadRef st")
    case True
    then show ?thesis
      by (simp add: submitAnswer_def uploadAnswer_ignored rerender_def)
  next
    case False
    then show ?thesis using submitAnswer_fields(1)[OF False, of sub] by simp
  qed
  have req: "submitted_request st sub \<noteq> None
      \<longleftrightarrow> \<not> processingUploadRef st \<and> truthy_string (env_session (sub_env sub))
          \<and> (case sub_audio sub of None \<Rightarrow> False | Some a \<Rightarrow> blob_size a \<noteq> 0)"
    by (auto simp: submitted_request_def uploadAnswer_begin_def truthy_string_def Let_def
        split: option.splits)
  have rej: "questionIndex (submitAnswer st sub) = questionIndex st
          \<and> ip_error (submitAnswer st sub)
              = Some (js ''No audio captured for this answer. Please re-record.'')
          \<and> submitted_request st sub = None"
    if h: "truthy_string (env_session (sub_env sub))" "\<not> processingUploadRef st"
      "case sub_audio sub of None \<Rightarrow> True | Some a \<Rightarrow> blob_size a = 0"
  proof -
    from h(1) obtain sid where sid: "env_session (sub_env sub) = Some sid" "sid \<noteq> []"
      by (auto simp: truthy_string_def split: option.splits)
    have "questionIndex (submitAnswer st sub) = questionIndex st
          \<and> ip_error (submitAnswer st sub)
              = Some (js ''No audio captured for this answer. Please re-record.'')"
      using h(2,3) sid
      by (auto simp: submitAnswer_def uploadAnswer_def uploadAnswer_begin_def upload_catch_def
          upload_finally_def rerender_def Let_def split: option.splits)
    moreover have "submitted_request st sub = None"
      using req h(3) by (auto split: option.splits)
    ultimately show ?thesis by simp
  qed
  have ign: "submitAnswer st sub = st \<and> submitted_request st sub = None"
    if "processingUploadRef st"
    using that req by (simp add: submitAnswer_def uploadAnswer_ignored rerender_def)
  from idx rej ign req show ?thesis by simp
qed

theorem submitAnswer_index_witness:
  "truthy_string (Some (js ''s1'')) \<and> \<not> processingUploadRef interview_page_init
   \<and> blob_size (Blob 0) = 0
   \<and> questionIndex (submitAnswer interview_page_init
        \<lparr>sub_env = \<lparr>env_session = Some (js ''s1''), env_question = FetchRejects None,
                    env_tmsg = None, env_closure_index = 1\<rparr>,
         sub_audio = Some (Blob 0),
         sub_response = Response True (JsonProp (JString (js ''Next'')))\<rparr>) = 1
   \<and> ip_error (submitAnswer interview_page_init
        \<lparr>sub_env = \<lparr>env_session = Some (js ''s1''), env_question = FetchRejects None,
                    env_tmsg = None, env_closure_index = 1\<rparr>,
         sub_audio = Some (Blob 0),
         sub_response = Response True (JsonProp (JString (js ''Next'')))\<rparr>)
       = Some (js ''No audio captured for this answer. Please re-record.'')
   \<and> submitted_request interview_page_init
        \<lparr>sub_env = \<lparr>env_session = Some (js ''s1''), env_question = FetchRejects None,
                    env_tmsg = None, env_closure_index = 1\<rparr>,
         sub_audio = Some (Blob 0),
         sub_response = Response True (JsonProp (JString (js ''Next'')))\<rparr> = None
   \<and> questionIndex (submitAnswer interview_page_init
        \<lparr>sub_env = \<lparr>env_session = Some (js ''s1''), env_question = FetchRejects None,
                    env_tmsg = None, env_closure_index = 1\<rparr>,
         sub_audio = Some (Blob 7),
         sub_response = Response True (JsonProp (JString (js ''Next'')))\<rparr>) = 2
   \<and> submitted_request interview_page_init
        \<lparr>sub_env = \<lparr>env_session = Some (js ''s1''), env_question = FetchRejects None,
                    env_tmsg = None, env_closure_index = 1\<rparr>,
         sub_audio = Some (Blob 7),
         sub_response = Response True (JsonProp (JString (js ''Next'')))\<rparr> \<noteq> None
   \<and> processingUploadRef (interview_page_init\<lparr>processingUploadRef := True\<rparr>)
   \<and> submitAnswer (interview_page_init\<lparr>processingUploadRef := True\<rparr>)
        \<lparr>sub_env = \<lparr>env_session = Some (js ''s1''), env_question = FetchRejects None,
                    env_tmsg = None, env_closure_index = 1\<rparr>,
         sub_audio = Some (Blob 7),
         sub_response = Response True (JsonProp (JString (js ''Next'')))\<rparr>
       = interview_page_init\<lparr>processingUploadRef := True\<rparr>"
proof -
  define e where "e = \<lparr>env_session = Some (js ''s1''), env_question = FetchRejects None,
                    env_tmsg = None, env_closure_index = 1\<rparr>"
  define sub0 where "sub0 = \<lparr>sub_env = e, sub_audio = Some (Blob 0),
         sub_response = Response True (JsonProp (JString (js ''Next'')))\<rparr>"
  define sub7 where "sub7 = \<lparr>sub_env = e, sub_audio = Some (Blob 7),
         sub_response = Response True (JsonProp (JString (js ''Next'')))\<rparr>"
  define busy where "busy = interview_page_init\<lparr>processingUploadRef := True\<rparr>"
  have s: "truthy_string (Some (js ''s1''))" by (simp add: truthy_string_def js_def)
  have se: "truthy_string (env_session (sub_env sub0))" "truthy_string (env_session (sub_env sub7))"
    using s by (simp_all add: sub0_def sub7_def e_def)
  have r: "\<not> processingUploadRef interview_page_init" by (simp add: interview_page_init_def)
  have q: "questionIndex interview_page_init = 1" by (simp add: interview_page_init_def)
  have rb: "processingUploadRef busy" by (simp add: busy_def)
  have a0: "case sub_audio sub0 of None \<Rightarrow> True | Some a \<Rightarrow> blob_size a = 0"
    by (simp add: sub0_def)
  have a7: "case sub_audio sub7 of None \<Rightarrow> False | Some a \<Rightarrow> blob_size a \<noteq> 0"
    by (simp add: sub7_def)
  have ok: "succeeded sub7"
    by (simp add: succeeded_def sub7_def)
  note t0 = submitAnswer_index[of interview_page_init sub0]
  note t7 = submitAnswer_index[of interview_page_init sub7]
  note tb = submitAnswer_index[of busy sub7]
  from t0 se(1) r a0 q have a: "questionIndex (submitAnswer interview_page_init sub0) = 1"
    "ip_error (submitAnswer interview_page_init sub0)
       = Some (js ''No audio captured for this answer. Please re-record.'')"
    "submitted_request interview_page_init sub0 = None"
    by simp_all
  from t7 ok r q have b: "questionIndex (submitAnswer interview_page_init sub7) = 2"
    by simp
  from t7 se(2) r a7 have c: "submitted_request interview_page_init sub7 \<noteq> None"
    by blast
  from tb rb have d: "submitAnswer busy sub7 = busy" by blast
  from s r a b c rb d show ?thesis
    unfolding sub0_def sub7_def e_def busy_def by simp
qed

section \<open>At most one answer upload in flight\<close>

lemma rerender_same: "rerender e st st = st"
  by (simp add: rerender_def)

lemma begin_ignored: "processingUploadRef st \<Longrightarrow> uploadAnswer_begin k sid a st = (st, None)"
  by (simp add: uploadAnswer_begin_def)

lemma begin_ref:
  "\<not> processingUploadRef st \<Longrightarrow> uploadAnswer_begin k sid a st = (st', r) \<Longrightarrow>
     (processingUploadRef st' \<longleftrightarrow> r \<noteq> None)"
  by (auto simp: uploadAnswer_begin_def upload_catch_fields Let_def
      split: option.splits if_splits)

lemma stop_ignored: "processingUploadRef st \<Longrightarrow> recorder_stop k sid st = (st, None)"
  by (simp add: recorder_stop_def)

lemma stop_ref:
  "\<not> processingUploadRef st \<Longrightarrow> recorder_stop k sid st = (st', r) \<Longrightarrow>
     (processingUploadRef st' \<longleftrightarrow> r \<noteq> None)"
  using begin_ref[of "st\<lparr>audioChunksRef := []\<rparr>" k sid _ st' r]
  by (simp add: recorder_stop_def)

lemma step_ignored:
  assumes "processingUploadRef (page sys)"
  shows "step sys (CallUploadAnswer e a) = sys" "step sys (RecorderStop e) = sys"
  using assms by (simp_all add: begin_ignored stop_ignored rerender_same sent_def)

lemma step_guarded:
  assumes "guarded sys"
  shows "guarded (step sys ev)"
proof (cases ev)
  case (CallUploadAnswer e a)
  show ?thesis
  proof (cases "processingUploadRef (page sys)")
    case True
    have "step sys ev = sys" unfolding CallUploadAnswer using True by (rule step_ignored(1))
    with assms show ?thesis by simp
  next
    case False
    obtain st' r where b: "uploadAnswer_begin (env_closure_index e) (env_session e) a (page sys) = (st', r)"
      by (cases "uploadAnswer_begin (env_closure_index e) (env_session e) a (page sys)")
    from begin_ref[OF False b] have "processingUploadRef st' \<longleftrightarrow> r \<noteq> None" .
    moreover from assms False have "in_flight sys = []" by (simp add: guarded_def)
    ultimately show ?thesis
      using CallUploadAnswer b by (cases r) (simp_all add: guarded_def rerender_ref sent_def)
  qed
next
  case (RecorderStop e)
  show ?thesis
  proof (cases "processingUploadRef (page sys)")
    case True
    have "step sys ev = sys" unfolding RecorderStop using True by (rule step_ignored(2))
    with assms show ?thesis by simp
  next
    case False
    obtain st' r where b: "recorder_stop (env_closure_index e) (env_session e) (page sys) = (st', r)"
      by (cases "recorder_stop (env_closure_index e) (env_session e) (page sys)")
    from stop_ref[OF False b] have "processingUploadRef st' \<longleftrightarrow> r \<noteq> None" .
    moreover from assms False have "in_flight sys = []" by (simp add: guarded_def)
    ultimately show ?thesis
      using RecorderStop b by (cases r) (simp_all add: guarded_def rerender_ref sent_def)
  qed
next
  case (DataAvailable b)
  then show ?thesis using assms by (simp add: guarded_def)
next
  case (UploadSettles e res)
  show ?thesis
  proof (cases "in_flight sys")
    case Nil
    then show ?thesis using assms UploadSettles by simp
  next
    case (Cons req rest)
    with assms have "rest = []" by (simp add: guarded_def)
    then show ?thesis
      using UploadSettles Cons by (simp add: guarded_def rerender_ref uploadAnswer_end_ref)
  qed
qed

lemma run_guarded: "guarded (foldl step (system_init e0) evs)"
proof (induction evs rule: rev_induct)
  case Nil
  show ?case by (simp add: guarded_def system_init_def mounted_fields)
next
  case (snoc ev evs)
  then show ?case by (simp add: step_guarded)
qed

lemma settle_clears:
  assumes "guarded sys"
  shows "\<not> processingUploadRef (page (step sys (UploadSettles e res)))"
  using assms
  by (cases "in_flight sys") (simp_all add: guarded_def rerender_ref uploadAnswer_end_ref)

text \<open>
  C8. In every state that the interview page reaches from its mounted state through calls
  of \<open>uploadAnswer\<close>, recorder events and settling uploads, at most one answer upload is
  in flight, and the ref \<open>processingUploadRef\<close> is set exactly while one is. While it is
  set, a further call of \<open>uploadAnswer\<close> and the recorder's \<open>stop\<close> listener leave the
  whole system as it is: no request is sent and the question index does not move. When
  the upload settles, whatever its outcome, the ref is cleared.
\<close>

theorem one_upload_in_flight:
  "length (in_flight (foldl step (system_init e0) evs)) \<le> 1
   \<and> (processingUploadRef (page (foldl step (system_init e0) evs))
        \<longleftrightarrow> in_flight (foldl step (system_init e0) evs) \<noteq> [])
   \<and> (processingUploadRef (page (foldl step (system_init e0) evs)) \<longrightarrow>
        (\<forall>e a. step (foldl step (system_init e0) evs) (CallUploadAnswer e a)
                 = foldl step (system_init e0) evs)
        \<and> (\<forall>e. step (foldl step (system_init e0) evs) (RecorderStop e)
                 = foldl step (system_init e0) evs))
   \<and> (\<forall>e res. \<not> processingUploadRef
          (page (step (foldl step (system_init e0) evs) (UploadSettles e res))))"
proof -
  define sys where "sys = foldl step (system_init e0) evs"
  have g: "guarded sys" unfolding sys_def by (rule run_guarded)
  then have "length (in_flight sys) \<le> 1"
    "processingUploadRef (page sys) \<longleftrightarrow> in_flight sys \<noteq> []"
    by (simp_all add: guarded_def)
  moreover have "processingUploadRef (page sys) \<longrightarrow>
        (\<forall>e a. step sys (CallUploadAnswer e a) = sys) \<and> (\<forall>e. step sys (RecorderStop e) = sys)"
    using step_ignored by blast
  moreover have "\<forall>e res. \<not> processingUploadRef (page (step sys (UploadSettles e res)))"
    using settle_clears[OF g] by blast
  ultimately show ?thesis unfolding sys_def by blast
qed

theorem one_upload_in_flight_witness:
  "processingUploadRef (page (foldl step
      (system_init \<lparr>env_session = Some (js ''s1''), env_question = FetchRejects None,
                     env_tmsg = None, env_closure_index = 1\<rparr>)
      [CallUploadAnswer \<lparr>env_session = Some (js ''s1''), env_question = FetchRejects None,
                         env_tmsg = None, env_closure_index = 1\<rparr> (Some (Blob 5))]))
   \<and> length (in_flight (foldl step
      (system_init \<lparr>env_session = Some (js ''s1''), env_question = FetchRejects None,
                     env_tmsg = None, env_closure_index = 1\<rparr>)
      [CallUploadAnswer \<lparr>env_session = Some (js ''s1''), env_question = FetchRejects None,
                         env_tmsg = None, env_closure_index = 1\<rparr> (Some (Blob 5))])) = 1
   \<and> step (foldl step
      (system_init \<lparr>env_session = Some (js ''s1''), env_question = FetchRejects None,
                     env_tmsg = None, env_closure_index = 1\<rparr>)
      [CallUploadAnswer \<lparr>env_session = Some (js ''s1''), env_question = FetchRejects None,
                         env_tmsg = None, env_closure_index = 1\<rparr> (Some (Blob 5))])
      (CallUploadAnswer \<lparr>env_session = None, env_question = FetchRejects None,
                         env_tmsg = None, env_closure_index = 1\<rparr> None)
     = foldl step
      (system_init \<lparr>env_session = Some (js ''s1''), env_question = FetchRejects None,
                     env_tmsg = None, env_closure_index = 1\<rparr>)
      [CallUploadAnswer \<lparr>env_session = Some (js ''s1''), env_question = FetchRejects None,
                         env_tmsg = None, env_closure_index = 1\<rparr> (Some (Blob 5))]"
proof -
  define e where "e = \<lparr>env_session = Some (js ''s1''), env_question = FetchRejects None,
                     env_tmsg = None, env_closure_index = 1\<rparr>"
  define sys where "sys = foldl step (system_init e) [CallUploadAnswer e (Some (Blob 5))]"
  have s1: "js ''s1'' \<noteq> []" by (simp add: js_def)
  have r: "processingUploadRef (page sys)"
    using s1 mounted_fields(2)[of e]
    by (simp add: sys_def system_init_def uploadAnswer_begin_def rerender_ref e_def)
  note t = one_upload_in_flight[of e "[CallUploadAnswer e (Some (Blob 5))]"]
  from t r have n: "in_flight sys \<noteq> []" "length (in_flight sys) \<le> 1"
    unfolding sys_def by blast+
  then have l: "length (in_flight sys) = 1" by (cases "in_flight sys") auto
  from t r have i: "step sys (CallUploadAnswer \<lparr>env_session = None,
      env_question = FetchRejects None, env_tmsg = None, env_closure_index = 1\<rparr> None) = sys"
    unfolding sys_def by blast
  from r l i show ?thesis unfolding sys_def e_def by simp
qed

section \<open>Cleaning the reply and cutting it into sections\<close>

lemma remove_bold_keep: "b \<noteq> 42 \<Longrightarrow> remove_bold (b # cs) = b # remove_bold cs"
  by (cases cs) auto

lemma has_bold_Cons:
  "has_bold (a # r) \<longleftrightarrow> (r \<noteq> [] \<and> a = 42 \<and> hd r = 42) \<or> has_bold r"
  by (cases r) auto

lemma remove_bold_clean: "\<not> has_bold (remove_bold s)"
proof (induction s rule: remove_bold.induct)
  case (1 a b cs)
  show ?case
  proof (cases "a = 42 \<and> b = 42")
    case True
    with 1 show ?thesis by simp
  next
    case False
    with 1 have ih: "\<not> has_bold (remove_bold (b # cs))" by simp
    have "\<not> (a = 42 \<and> hd (remove_bold (b # cs)) = 42)"
    proof
      assume h: "a = 42 \<and> hd (remove_bold (b # cs)) = 42"
      with False have "b \<noteq> 42" by simp
      then have "hd (remove_bold (b # cs)) = b" by (simp add: remove_bold_keep)
      with h \<open>b \<noteq> 42\<close> show False by simp
    qed
    with ih False show ?thesis by (auto simp: has_bold_Cons)
  qed
qed simp_all

lemma remove_bold_others:
  "filter (\<lambda>c. c \<noteq> 42) (remove_bold s) = filter (\<lambda>c. c \<noteq> 42) s"
  by (induction s rule: remove_bold.induct) auto

lemma has_bold_append:
  "has_bold (xs @ ys) \<longleftrightarrow>
     has_bold xs \<or> has_bold ys \<or> (xs \<noteq> [] \<and> ys \<noteq> [] \<and> last xs = 42 \<and> hd ys = 42)"
proof (induction xs)
  case Nil
  then show ?case by simp
next
  case (Cons a xs)
  show ?case
  proof (cases "xs = []")
    case True
    then show ?thesis by (auto simp: has_bold_Cons)
  next
    case False
    with Cons show ?thesis by (auto simp: has_bold_Cons)
  qed
qed

lemma has_bold_rev: "has_bold (rev s) = has_bold s"
proof (induction s)
  case Nil
  then show ?case by simp
next
  case (Cons a s)
  have "has_bold (rev (a # s)) \<longleftrightarrow> has_bold (rev s) \<or> (s \<noteq> [] \<and> last (rev s) = 42 \<and> a = 42)"
    by (auto simp: has_bold_append)
  also have "\<dots> \<longleftrightarrow> has_bold s \<or> (s \<noteq> [] \<and> hd s = 42 \<and> a = 42)"
    using Cons by (auto simp: last_rev)
  also have "\<dots> \<longleftrightarrow> has_bold (a # s)"
    by (auto simp: has_bold_Cons)
  finally show ?case .
qed

lemma has_bold_dropWhile: "\<not> has_bold s \<Longrightarrow> \<not> has_bold (dropWhile P s)"
proof -
  assume a: "\<not> has_bold s"
  have "s = takeWhile P s @ dropWhile P s" by simp
  then have "has_bold (dropWhile P s) \<Longrightarrow> has_bold s"
    by (metis has_bold_append)
  with a show ?thesis by blast
qed

lemma has_bold_trim: "\<not> has_bold s \<Longrightarrow> \<not> has_bold (trim s)"
  unfolding trim_def
  by (simp add: has_bold_rev has_bold_dropWhile)

lemma last_dropWhile: "dropWhile P xs \<noteq> [] \<Longrightarrow> last (dropWhile P xs) = last xs"
proof -
  assume a: "dropWhile P xs \<noteq> []"
  have "last (takeWhile P xs @ dropWhile P xs) = last (dropWhile P xs)"
    using a by (rule last_appendR)
  then show ?thesis by simp
qed

lemma dropWhile_self: "xs = [] \<or> \<not> P (hd xs) \<Longrightarrow> dropWhile P xs = xs"
  by (cases xs) auto

lemma trim_idem: "trim (trim s) = trim s"
proof -
  define u where "u = dropWhile isWhiteSpace s"
  define v where "v = dropWhile isWhiteSpace (rev u)"
  have t: "trim s = rev v" by (simp add: trim_def u_def v_def)
  have "rev v = [] \<or> \<not> isWhiteSpace (hd (rev v))"
  proof (cases "v = []")
    case True
    then show ?thesis by simp
  next
    case False
    then have "last v = last (rev u)" unfolding v_def by (rule last_dropWhile)
    moreover from False have "u \<noteq> []" unfolding v_def by auto
    ultimately have "hd (rev v) = hd u" using False by (simp add: hd_rev last_rev)
    moreover have "\<not> isWhiteSpace (hd u)"
      using \<open>u \<noteq> []\<close> unfolding u_def by (rule hd_dropWhile)
    ultimately show ?thesis by simp
  qed
  then have 1: "dropWhile isWhiteSpace (rev v) = rev v" by (rule dropWhile_self)
  have 2: "dropWhile isWhiteSpace v = v" unfolding v_def by (rule dropWhile_idem)
  show ?thesis unfolding t by (simp add: trim_def 1 2)
qed

lemma match_literal_marker:
  assumes "match_literal (js m) s = Some r"
  shows "spells m (take (length m) s)"
proof -
  from match_literal_Some[OF assms] obtain w where
    w: "s = w @ r" "map canonicalize w = map canonicalize (js m)" by blast
  from w(2) have "length w = length (js m)" by (rule map_eq_imp_length_eq)
  then have "take (length m) s = w" using w(1) by (simp add: js_def)
  with w(2) show ?thesis by (simp add: spells_def)
qed

lemma section_regex_position:
  "section_regex marker stop s = Some g \<Longrightarrow>
     \<exists>i\<le>length s. match_literal marker (drop i s) \<noteq> None"
proof (induction s)
  case Nil
  then show ?case by (auto split: option.splits)
next
  case (Cons a s)
  show ?case
  proof (cases "match_literal marker (a # s)")
    case None
    with Cons.prems have "section_regex marker stop s = Some g" by simp
    from Cons.IH[OF this] obtain i where "i \<le> length s" "match_literal marker (drop i s) \<noteq> None"
      by blast
    then have "Suc i \<le> length (a # s) \<and> match_literal marker (drop (Suc i) (a # s)) \<noteq> None"
      by simp
    then show ?thesis by blast
  next
    case (Some r)
    then have "match_literal marker (drop 0 (a # s)) \<noteq> None" by simp
    then show ?thesis by blast
  qed
qed

lemma no_marker_no_section:
  assumes "\<not> has_marker m s"
  shows "section_regex (js m) stop s = None"
proof (rule ccontr)
  assume "section_regex (js m) stop s \<noteq> None"
  then obtain g where "section_regex (js m) stop s = Some g" by auto
  from section_regex_position[OF this] obtain i r where
    i: "i \<le> length s" "match_literal (js m) (drop i s) = Some r" by auto
  have "i \<in> set [0..<Suc (length s)]" using i(1) by auto
  with match_literal_marker[OF i(2)] have "has_marker m s"
    unfolding has_marker_def list_ex_iff by blast
  with assms show False by contradiction
qed

text \<open>
  C10. On the interview-summary page \<open>applySummary\<close> stores and parses the cleaned reply:
  the reply with every pair of asterisks taken out (nothing but asterisks is taken out, and
  no two asterisks remain side by side) and then trimmed. The score is parsed from this
  cleaned text and so are the sections. The sections are cut asymmetrically: when the
  cleaned text has no \<open>SUMMARY:\<close> marker, the overall summary is the whole cleaned text, and
  it is shown once loading is over unless it is empty; when it has no \<open>STRENGTHS:\<close> marker,
  or no \<open>IMPROVEMENTS:\<close> marker, that section is empty and its box is not shown.
\<close>

theorem results_page_sections:
  "rp_summary (applySummary_results reply st) = Some (trim (remove_bold reply))
   \<and> rp_score (applySummary_results reply st) = parse_score (trim (remove_bold reply))
   \<and> \<not> has_bold (trim (remove_bold reply))
   \<and> filter (\<lambda>c. c \<noteq> 42) (remove_bold reply) = filter (\<lambda>c. c \<noteq> 42) reply
   \<and> (\<not> has_marker ''SUMMARY:'' (trim (remove_bold reply)) \<longrightarrow>
        overallSummary (parse_sections (rp_summary (applySummary_results reply st)))
          = trim (remove_bold reply)
        \<and> shown_overallSummary
            (render_results ((applySummary_results reply st)\<lparr>rp_isLoading := False\<rparr>))
          = (if trim (remove_bold reply) = [] then None else Some (trim (remove_bold reply))))
   \<and> (\<not> has_marker ''STRENGTHS:'' (trim (remove_bold reply)) \<longrightarrow>
        strengths (parse_sections (rp_summary (applySummary_results reply st))) = []
        \<and> shown_strengths
            (render_results ((applySummary_results reply st)\<lparr>rp_isLoading := False\<rparr>)) = None)
   \<and> (\<not> has_marker ''IMPROVEMENTS:'' (trim (remove_bold reply)) \<longrightarrow>
        improvements (parse_sections (rp_summary (applySummary_results reply st))) = []
        \<and> shown_improvements
            (render_results ((applySummary_results reply st)\<lparr>rp_isLoading := False\<rparr>)) = None)"
proof -
  define cleaned where "cleaned = trim (remove_bold reply)"
  have s: "rp_summary (applySummary_results reply st) = Some cleaned"
    and sc: "rp_score (applySummary_results reply st) = parse_score cleaned"
    by (simp_all add: applySummary_results_def cleaned_def Let_def)
  have s': "rp_summary ((applySummary_results reply st)\<lparr>rp_isLoading := False\<rparr>) = Some cleaned"
    using s by simp
  have nb: "\<not> has_bold cleaned"
    unfolding cleaned_def using remove_bold_clean by (rule has_bold_trim)
  have tc: "trim cleaned = cleaned" unfolding cleaned_def by (rule trim_idem)
  have sum: "overallSummary (parse_sections (Some cleaned)) = cleaned
        \<and> shown_overallSummary
            (render_results ((applySummary_results reply st)\<lparr>rp_isLoading := False\<rparr>))
          = (if cleaned = [] then None else Some cleaned)"
    if "\<not> has_marker ''SUMMARY:'' cleaned"
    using no_marker_no_section[OF that, of None] tc s'
    by (simp add: parse_sections_def render_results_def shown_def truthy_string_def Let_def)
  have str: "strengths (parse_sections (Some cleaned)) = []
        \<and> shown_strengths
            (render_results ((applySummary_results reply st)\<lparr>rp_isLoading := False\<rparr>)) = None"
    if "\<not> has_marker ''STRENGTHS:'' cleaned"
    using no_marker_no_section[OF that, of "Some (js ''IMPROVEMENTS:'')"] s'
    by (simp add: parse_sections_def render_results_def shown_def truthy_string_def Let_def)
  have imp: "improvements (parse_sections (Some cleaned)) = []
        \<and> shown_improvements
            (render_results ((applySummary_results reply st)\<lparr>rp_isLoading := False\<rparr>)) = None"
    if "\<not> has_marker ''IMPROVEMENTS:'' cleaned"
    using no_marker_no_section[OF that, of "Some (js ''SUMMARY:'')"] s'
    by (simp add: parse_sections_def render_results_def shown_def truthy_string_def Let_def)
  from s sc nb sum str imp remove_bold_others[of reply] show ?thesis
    unfolding cleaned_def[symmetric] by simp
qed

theorem results_page_sections_witness:
  "trim (remove_bold (js '' You did **well** overall. ''))  = js ''You did well overall.''
   \<and> \<not> has_marker ''SUMMARY:'' (js ''You did well overall.'')
   \<and> \<not> has_marker ''STRENGTHS:'' (js ''You did well overall.'')
   \<and> \<not> has_marker ''IMPROVEMENTS:'' (js ''You did well overall.'')
   \<and> render_results
        ((applySummary_results (js '' You did **well** overall. '') results_page_init)
           \<lparr>rp_isLoading := False\<rparr>)
      = \<lparr>shown_strengths = None, shown_improvements = None,
         shown_overallSummary = Some (js ''You did well overall.'')\<rparr>"
proof -
  have c: "trim (remove_bold (js '' You did **well** overall. '')) = js ''You did well overall.''"
    by (simp add: js_eval)
  have m1: "\<not> has_marker ''SUMMARY:'' (js ''You did well overall.'')"
    by (simp add: js_eval)
  have m2: "\<not> has_marker ''STRENGTHS:'' (js ''You did well overall.'')"
    by (simp add: js_eval)
  have m3: "\<not> has_marker ''IMPROVEMENTS:'' (js ''You did well overall.'')"
    by (simp add: js_eval)
  have ne: "js ''You did well overall.'' \<noteq> []" by (simp add: js_def)
  note t = results_page_sections[of "js '' You did **well** overall. ''" results_page_init,
      unfolded c]
  from t m1 ne have a: "shown_overallSummary (render_results
        ((applySummary_results (js '' You did **well** overall. '') results_page_init)
           \<lparr>rp_isLoading := False\<rparr>)) = Some (js ''You did well overall.'')"
    by simp
  from t m2 have b: "shown_strengths (render_results
        ((applySummary_results (js '' You did **well** overall. '') results_page_init)
           \<lparr>rp_isLoading := False\<rparr>)) = None"
    by blast
  from t m3 have d: "shown_improvements (render_results
        ((applySummary_results (js '' You did **well** overall. '') results_page_init)
           \<lparr>rp_isLoading := False\<rparr>)) = None"
    by blast
  have "render_results
        ((applySummary_results (js '' You did **well** overall. '') results_page_init)
           \<lparr>rp_isLoading := False\<rparr>)
      = \<lparr>shown_strengths = None, shown_improvements = None,
         shown_overallSummary = Some (js ''You did well overall.'')\<rparr>"
    using a b d
    by (cases "render_results
        ((applySummary_results (js '' You did **well** overall. '') results_page_init)
           \<lparr>rp_isLoading := False\<rparr>)") simp
  with c m1 m2 m3 show ?thesis by blast
qed

end
